theory Spec2Isabelle
  imports Main "HOL-Library.Sublist"
begin

section \<open>The counter contract service (src/lib/contract.ts)\<close>

text \<open>
  The class \<open>CounterContractService\<close> holds three nullable fields and offers asynchronous
  methods that talk to an injected wallet (\<open>window.ethereum\<close>) through the ethers library.
  The embedding makes the three fields a record, every awaited call of a library or wallet
  object a question to an explicit \<open>world\<close>, and every method a function that takes the
  service and the list of the calls made so far and returns how its promise settles, the
  updated service (for \<open>connect\<close>, the only method that assigns a field) and the extended
  list of calls. Console output is not part of the model. A method runs from its first
  statement to the settlement of its promise without another method interleaved.
\<close>

subsection \<open>Thrown values and promises\<close>

text \<open>
  JavaScript can throw any value. The source inspects a caught value in three ways:
  \<open>error instanceof Error\<close> with \<open>error.message\<close> (lines 68, 69 and 77) and
  \<open>switchError.code === 4902\<close> (line 151). A thrown value is therefore an \<open>Error\<close>
  object with its message and its numeric \<open>code\<close> property (if it has one), some other
  value that is not \<open>null\<close> or \<open>undefined\<close> with its numeric \<open>code\<close> property (if
  it has one), or \<open>null\<close>/\<open>undefined\<close>, on which a property read raises a TypeError.
\<close>

datatype thrown =
    ErrorObject string "int option"
  | PlainValue "int option"
  | Nullish

definition new_Error :: "string \<Rightarrow> thrown" where
  \<comment> \<open>\<open>new Error(message)\<close>: no \<open>code\<close> property\<close>
  "new_Error message = ErrorObject message None"

fun code_of :: "thrown \<Rightarrow> int option" where
  \<comment> \<open>\<open>e.code\<close> when it is a number; only read on a value that is not \<open>Nullish\<close>\<close>
  "code_of (ErrorObject message c) = c"
| "code_of (PlainValue c) = c"
| "code_of Nullish = None"

text \<open>
  An awaited promise resolves with a value, rejects with a thrown value, or never settles
  (a wallet prompt nobody answers). An \<open>async\<close> method returns a promise, so its result
  has the same three shapes.
\<close>

datatype 'a outcome = Resolves 'a | Rejects thrown | Pending

fun includes_str :: "string \<Rightarrow> string \<Rightarrow> bool" where
  \<comment> \<open>\<open>String.prototype.includes\<close>: the second string occurs in the first\<close>
  "includes_str [] needle = (needle = [])"
| "includes_str (c # cs) needle = (prefix needle (c # cs) \<or> includes_str cs needle)"

subsection \<open>Handles, static configuration, calls and the world\<close>

datatype provider_handle = BrowserProvider
  \<comment> \<open>\<open>new ethers.BrowserProvider(window.ethereum)\<close>, line 28\<close>

datatype signer_handle = JsonRpcSigner string
  \<comment> \<open>the signer \<open>provider.getSigner()\<close> resolves with, named by its account\<close>

datatype contract_handle = Contract string signer_handle
  \<comment> \<open>\<open>new ethers.Contract(contractAddress, CounterABI, this.signer)\<close>, lines 51 to 55;
      the ABI is a constant\<close>

datatype tx_response = ContractTransactionResponse string
  \<comment> \<open>the pending transaction a mutating call resolves with, named by its hash\<close>

record network =
  net_chainId :: int
  net_name :: string
  \<comment> \<open>the fields \<open>chainId\<close> and \<open>name\<close> of what \<open>provider.getNetwork()\<close> resolves with\<close>

record network_descriptor =
  chainId :: nat
  name :: string
  rpcUrl :: string
  blockExplorer :: string

record config =
  contractAddress :: string
  CURRENT_NETWORK :: network_descriptor

definition SUPPORTED_NETWORKS_sepolia :: network_descriptor where
  "SUPPORTED_NETWORKS_sepolia =
     \<lparr>chainId = 11155111,
      name = ''Sepolia Test Network'',
      rpcUrl = ''https://sepolia.infura.io/v3/'',
      blockExplorer = ''https://sepolia.etherscan.io/''\<rparr>"

definition constants :: config where
  \<comment> \<open>the module \<open>./constants\<close>\<close>
  "constants =
     \<lparr>contractAddress = ''0x4195c66979168212232B2d88cb15fd48c5072c83'',
      CURRENT_NETWORK = SUPPORTED_NETWORKS_sepolia\<rparr>"

record native_currency =
  currency_name :: string
  symbol :: string
  decimals :: nat

record add_chain_parameter =
  add_chainId :: string
  chainName :: string
  rpcUrls :: "string list"
  blockExplorerUrls :: "string list"
  nativeCurrency :: native_currency

datatype request_parameter =
    SwitchChainParameter string
  | AddChainParameter add_chain_parameter
  \<comment> \<open>\<open>{ chainId: ... }\<close> (line 147) and the object of lines 156 to 166\<close>

record request_arguments =
  request_method :: string  \<comment> \<open>the property \<open>method\<close>\<close>
  params :: "request_parameter list"

datatype call =
    ProviderGetSigner
  | ProviderGetNetwork
  | ProviderGetCode string
  | ContractGetCounter contract_handle
  | ContractIncrementCounter contract_handle
  | ContractDecrementCounter contract_handle
  | ContractResetCounter contract_handle
  | ContractOwner contract_handle
  | TxWait tx_response
  | SignerGetAddress signer_handle
  | EthereumRequest request_arguments

text \<open>
  The world answers each call; the answer may depend on the calls made before it (its
  first argument), so a chain can change between two calls. \<open>has_window\<close> is
  \<open>typeof window !== 'undefined'\<close>, \<open>has_ethereum\<close> is the truth value of
  \<open>window.ethereum\<close>, \<open>isAddress\<close> is \<open>ethers.isAddress\<close>.
  \<open>new_BrowserProvider\<close> is what the constructor call
  \<open>new ethers.BrowserProvider(window.ethereum)\<close> does: it returns the provider, or
  throws when the injected object is not a provider it accepts (for one, an object
  without \<open>request\<close>). The constructor is synchronous and makes no call. An awaited
  call that throws before it returns a promise is a call that rejects. The two messages
  are the ones the JavaScript engine gives its own ReferenceError and TypeError.
\<close>

record world =
  has_window :: bool
  has_ethereum :: bool
  new_BrowserProvider :: "thrown + provider_handle"
  isAddress :: "string \<Rightarrow> bool"
  getSigner :: "call list \<Rightarrow> signer_handle outcome"
  getNetwork :: "call list \<Rightarrow> network outcome"
  getCode :: "call list \<Rightarrow> string \<Rightarrow> string outcome"
  contract_getCounter :: "call list \<Rightarrow> contract_handle \<Rightarrow> int outcome"
  contract_incrementCounter :: "call list \<Rightarrow> contract_handle \<Rightarrow> tx_response outcome"
  contract_decrementCounter :: "call list \<Rightarrow> contract_handle \<Rightarrow> tx_response outcome"
  contract_resetCounter :: "call list \<Rightarrow> contract_handle \<Rightarrow> tx_response outcome"
  contract_owner :: "call list \<Rightarrow> contract_handle \<Rightarrow> string outcome"
  tx_wait :: "call list \<Rightarrow> tx_response \<Rightarrow> unit outcome"
  signer_getAddress :: "call list \<Rightarrow> signer_handle \<Rightarrow> string outcome"
  ethereum_request :: "call list \<Rightarrow> request_arguments \<Rightarrow> unit outcome"
  reference_error_message :: string
  type_error_message :: string

subsection \<open>The messages of the errors the service raises\<close>

text \<open>
  The source's messages are Korean text; a string is the list of the bytes of its UTF-8
  encoding, and each definition gives the source line and a translation.
\<close>

definition msg_browser_only :: string where
  \<comment> \<open>line 21: "This function can only be run in a browser."\<close>
  "msg_browser_only = [CHR 0xEC, CHR 0x9D, CHR 0xB4] @ '' '' @ [CHR 0xED, CHR 0x95, CHR
     0xA8, CHR 0xEC, CHR 0x88, CHR 0x98, CHR 0xEB, CHR 0x8A, CHR 0x94] @ '' '' @ [CHR 0xEB,
     CHR 0xB8, CHR 0x8C, CHR 0xEB, CHR 0x9D, CHR 0xBC, CHR 0xEC, CHR 0x9A, CHR 0xB0, CHR
     0xEC, CHR 0xA0, CHR 0x80, CHR 0xEC, CHR 0x97, CHR 0x90, CHR 0xEC, CHR 0x84, CHR 0x9C,
     CHR 0xEB, CHR 0xA7, CHR 0x8C] @ '' '' @ [CHR 0xEC, CHR 0x8B, CHR 0xA4, CHR 0xED, CHR
     0x96, CHR 0x89, CHR 0xED, CHR 0x95, CHR 0xA0] @ '' '' @ [CHR 0xEC, CHR 0x88, CHR 0x98] @
     '' '' @ [CHR 0xEC, CHR 0x9E, CHR 0x88, CHR 0xEC, CHR 0x8A, CHR 0xB5, CHR 0xEB, CHR 0x8B,
     CHR 0x88, CHR 0xEB, CHR 0x8B, CHR 0xA4] @ ''.''"

definition msg_no_metamask :: string where
  \<comment> \<open>lines 25 and 138: "MetaMask is not installed."\<close>
  "msg_no_metamask = ''MetaMask'' @ [CHR 0xEA, CHR 0xB0, CHR 0x80] @ '' '' @ [CHR 0xEC, CHR
     0x84, CHR 0xA4, CHR 0xEC, CHR 0xB9, CHR 0x98, CHR 0xEB, CHR 0x90, CHR 0x98, CHR 0xEC,
     CHR 0xA7, CHR 0x80] @ '' '' @ [CHR 0xEC, CHR 0x95, CHR 0x8A, CHR 0xEC, CHR 0x95, CHR
     0x98, CHR 0xEC, CHR 0x8A, CHR 0xB5, CHR 0xEB, CHR 0x8B, CHR 0x88, CHR 0xEB, CHR 0x8B,
     CHR 0xA4] @ ''.''"

definition msg_invalid_address :: string where
  \<comment> \<open>line 37, the text before the interpolated address: "Invalid contract address: "\<close>
  "msg_invalid_address = [CHR 0xEC, CHR 0x9C, CHR 0xA0, CHR 0xED, CHR 0x9A, CHR 0xA8, CHR
     0xED, CHR 0x95, CHR 0x98, CHR 0xEC, CHR 0xA7, CHR 0x80] @ '' '' @ [CHR 0xEC, CHR 0x95,
     CHR 0x8A, CHR 0xEC, CHR 0x9D, CHR 0x80] @ '' '' @ [CHR 0xEC, CHR 0xBB, CHR 0xA8, CHR
     0xED, CHR 0x8A, CHR 0xB8, CHR 0xEB, CHR 0x9E, CHR 0x99, CHR 0xED, CHR 0x8A, CHR 0xB8] @
     '' '' @ [CHR 0xEC, CHR 0xA3, CHR 0xBC, CHR 0xEC, CHR 0x86, CHR 0x8C] @ '': ''"

definition msg_not_deployed :: string where
  \<comment> \<open>line 47, the text before the interpolated address: "The contract is not deployed at this address: "\<close>
  "msg_not_deployed = [CHR 0xEC, CHR 0xBB, CHR 0xA8, CHR 0xED, CHR 0x8A, CHR 0xB8, CHR
     0xEB, CHR 0x9E, CHR 0x99, CHR 0xED, CHR 0x8A, CHR 0xB8, CHR 0xEA, CHR 0xB0, CHR 0x80] @
     '' '' @ [CHR 0xED, CHR 0x95, CHR 0xB4, CHR 0xEB, CHR 0x8B, CHR 0xB9] @ '' '' @ [CHR
     0xEC, CHR 0xA3, CHR 0xBC, CHR 0xEC, CHR 0x86, CHR 0x8C, CHR 0xEC, CHR 0x97, CHR 0x90] @
     '' '' @ [CHR 0xEB, CHR 0xB0, CHR 0xB0, CHR 0xED, CHR 0x8F, CHR 0xAC, CHR 0xEB, CHR 0x90,
     CHR 0x98, CHR 0xEC, CHR 0xA7, CHR 0x80] @ '' '' @ [CHR 0xEC, CHR 0x95, CHR 0x8A, CHR
     0xEC, CHR 0x95, CHR 0x98, CHR 0xEC, CHR 0x8A, CHR 0xB5, CHR 0xEB, CHR 0x8B, CHR 0x88,
     CHR 0xEB, CHR 0x8B, CHR 0xA4] @ '': ''"

definition msg_contract_not_connected :: string where
  \<comment> \<open>lines 60, 85, 93, 101 and 109: "Not connected to the contract."\<close>
  "msg_contract_not_connected = [CHR 0xEC, CHR 0xBB, CHR 0xA8, CHR 0xED, CHR 0x8A, CHR
     0xB8, CHR 0xEB, CHR 0x9E, CHR 0x99, CHR 0xED, CHR 0x8A, CHR 0xB8, CHR 0xEC, CHR 0x97,
     CHR 0x90] @ '' '' @ [CHR 0xEC, CHR 0x97, CHR 0xB0, CHR 0xEA, CHR 0xB2, CHR 0xB0, CHR
     0xEB, CHR 0x90, CHR 0x98, CHR 0xEC, CHR 0xA7, CHR 0x80] @ '' '' @ [CHR 0xEC, CHR 0x95,
     CHR 0x8A, CHR 0xEC, CHR 0x95, CHR 0x98, CHR 0xEC, CHR 0x8A, CHR 0xB5, CHR 0xEB, CHR
     0x8B, CHR 0x88, CHR 0xEB, CHR 0x8B, CHR 0xA4] @ ''.''"

definition msg_bad_data :: string where
  \<comment> \<open>line 71: "The contract is not deployed at this address, or the wrong network is connected."\<close>
  "msg_bad_data = [CHR 0xEC, CHR 0xBB, CHR 0xA8, CHR 0xED, CHR 0x8A, CHR 0xB8, CHR 0xEB,
     CHR 0x9E, CHR 0x99, CHR 0xED, CHR 0x8A, CHR 0xB8, CHR 0xEA, CHR 0xB0, CHR 0x80] @ '' ''
     @ [CHR 0xED, CHR 0x95, CHR 0xB4, CHR 0xEB, CHR 0x8B, CHR 0xB9] @ '' '' @ [CHR 0xEC, CHR
     0xA3, CHR 0xBC, CHR 0xEC, CHR 0x86, CHR 0x8C, CHR 0xEC, CHR 0x97, CHR 0x90] @ '' '' @
     [CHR 0xEB, CHR 0xB0, CHR 0xB0, CHR 0xED, CHR 0x8F, CHR 0xAC, CHR 0xEB, CHR 0x90, CHR
     0x98, CHR 0xEC, CHR 0xA7, CHR 0x80] @ '' '' @ [CHR 0xEC, CHR 0x95, CHR 0x8A, CHR 0xEC,
     CHR 0x95, CHR 0x98, CHR 0xEA, CHR 0xB1, CHR 0xB0, CHR 0xEB, CHR 0x82, CHR 0x98] @ '' ''
     @ [CHR 0xEC, CHR 0x9E, CHR 0x98, CHR 0xEB, CHR 0xAA, CHR 0xBB, CHR 0xEB, CHR 0x90, CHR
     0x9C] @ '' '' @ [CHR 0xEB, CHR 0x84, CHR 0xA4, CHR 0xED, CHR 0x8A, CHR 0xB8, CHR 0xEC,
     CHR 0x9B, CHR 0x8C, CHR 0xED, CHR 0x81, CHR 0xAC, CHR 0xEC, CHR 0x97, CHR 0x90] @ '' ''
     @ [CHR 0xEC, CHR 0x97, CHR 0xB0, CHR 0xEA, CHR 0xB2, CHR 0xB0, CHR 0xEB, CHR 0x90, CHR
     0x98, CHR 0xEC, CHR 0x97, CHR 0x88, CHR 0xEC, CHR 0x8A, CHR 0xB5, CHR 0xEB, CHR 0x8B,
     CHR 0x88, CHR 0xEB, CHR 0x8B, CHR 0xA4] @ ''.''"

definition msg_read_failed :: string where
  \<comment> \<open>line 76, the text before the interpolated message: "Failed to fetch the counter value: "\<close>
  "msg_read_failed = [CHR 0xEC, CHR 0xB9, CHR 0xB4, CHR 0xEC, CHR 0x9A, CHR 0xB4, CHR 0xED,
     CHR 0x84, CHR 0xB0] @ '' '' @ [CHR 0xEA, CHR 0xB0, CHR 0x92, CHR 0xEC, CHR 0x9D, CHR
     0x84] @ '' '' @ [CHR 0xEA, CHR 0xB0, CHR 0x80, CHR 0xEC, CHR 0xA0, CHR 0xB8, CHR 0xEC,
     CHR 0x98, CHR 0xA4, CHR 0xEB, CHR 0x8A, CHR 0x94, CHR 0xEB, CHR 0x8D, CHR 0xB0] @ '' ''
     @ [CHR 0xEC, CHR 0x8B, CHR 0xA4, CHR 0xED, CHR 0x8C, CHR 0xA8, CHR 0xED, CHR 0x96, CHR
     0x88, CHR 0xEC, CHR 0x8A, CHR 0xB5, CHR 0xEB, CHR 0x8B, CHR 0x88, CHR 0xEB, CHR 0x8B,
     CHR 0xA4] @ '': ''"

definition msg_unknown_error :: string where
  \<comment> \<open>line 77: "unknown error"\<close>
  "msg_unknown_error = [CHR 0xEC, CHR 0x95, CHR 0x8C] @ '' '' @ [CHR 0xEC, CHR 0x88, CHR
     0x98] @ '' '' @ [CHR 0xEC, CHR 0x97, CHR 0x86, CHR 0xEB, CHR 0x8A, CHR 0x94] @ '' '' @
     [CHR 0xEC, CHR 0x98, CHR 0xA4, CHR 0xEB, CHR 0xA5, CHR 0x98]"

definition msg_wallet_not_connected :: string where
  \<comment> \<open>line 116: "Not connected to the wallet."\<close>
  "msg_wallet_not_connected = [CHR 0xEC, CHR 0xA7, CHR 0x80, CHR 0xEA, CHR 0xB0, CHR 0x91,
     CHR 0xEC, CHR 0x97, CHR 0x90] @ '' '' @ [CHR 0xEC, CHR 0x97, CHR 0xB0, CHR 0xEA, CHR
     0xB2, CHR 0xB0, CHR 0xEB, CHR 0x90, CHR 0x98, CHR 0xEC, CHR 0xA7, CHR 0x80] @ '' '' @
     [CHR 0xEC, CHR 0x95, CHR 0x8A, CHR 0xEC, CHR 0x95, CHR 0x98, CHR 0xEC, CHR 0x8A, CHR
     0xB5, CHR 0xEB, CHR 0x8B, CHR 0x88, CHR 0xEB, CHR 0x8B, CHR 0xA4] @ ''.''"

definition msg_provider_not_connected :: string where
  \<comment> \<open>lines 127 and 185: "Not connected to the provider."\<close>
  "msg_provider_not_connected = [CHR 0xED, CHR 0x94, CHR 0x84, CHR 0xEB, CHR 0xA1, CHR
     0x9C, CHR 0xEB, CHR 0xB0, CHR 0x94, CHR 0xEC, CHR 0x9D, CHR 0xB4, CHR 0xEB, CHR 0x8D,
     CHR 0x94, CHR 0xEC, CHR 0x97, CHR 0x90] @ '' '' @ [CHR 0xEC, CHR 0x97, CHR 0xB0, CHR
     0xEA, CHR 0xB2, CHR 0xB0, CHR 0xEB, CHR 0x90, CHR 0x98, CHR 0xEC, CHR 0xA7, CHR 0x80] @
     '' '' @ [CHR 0xEC, CHR 0x95, CHR 0x8A, CHR 0xEC, CHR 0x95, CHR 0x98, CHR 0xEC, CHR 0x8A,
     CHR 0xB5, CHR 0xEB, CHR 0x8B, CHR 0x88, CHR 0xEB, CHR 0x8B, CHR 0xA4] @ ''.''"

definition msg_cannot_add :: string where
  \<comment> \<open>line 170, the text after the interpolated network name: " cannot be added." (a particle and the verb)\<close>
  "msg_cannot_add = [CHR 0xEC, CHR 0x9D, CHR 0x84] @ '' '' @ [CHR 0xEC, CHR 0xB6, CHR 0x94,
     CHR 0xEA, CHR 0xB0, CHR 0x80, CHR 0xED, CHR 0x95, CHR 0xA0] @ '' '' @ [CHR 0xEC, CHR
     0x88, CHR 0x98] @ '' '' @ [CHR 0xEC, CHR 0x97, CHR 0x86, CHR 0xEC, CHR 0x8A, CHR 0xB5,
     CHR 0xEB, CHR 0x8B, CHR 0x88, CHR 0xEB, CHR 0x8B, CHR 0xA4] @ ''.''"

definition msg_switch_failed :: string where
  \<comment> \<open>line 173: "Failed to switch the network."\<close>
  "msg_switch_failed = [CHR 0xEB, CHR 0x84, CHR 0xA4, CHR 0xED, CHR 0x8A, CHR 0xB8, CHR
     0xEC, CHR 0x9B, CHR 0x8C, CHR 0xED, CHR 0x81, CHR 0xAC] @ '' '' @ [CHR 0xEC, CHR 0xA0,
     CHR 0x84, CHR 0xED, CHR 0x99, CHR 0x98, CHR 0xEC, CHR 0x97, CHR 0x90] @ '' '' @ [CHR
     0xEC, CHR 0x8B, CHR 0xA4, CHR 0xED, CHR 0x8C, CHR 0xA8, CHR 0xED, CHR 0x96, CHR 0x88,
     CHR 0xEC, CHR 0x8A, CHR 0xB5, CHR 0xEB, CHR 0x8B, CHR 0x88, CHR 0xEB, CHR 0x8B, CHR
     0xA4] @ ''.''"

subsection \<open>The service\<close>

record service =
  contract :: "contract_handle option"
  provider :: "provider_handle option"
  signer :: "signer_handle option"

definition counterService :: service where
  \<comment> \<open>\<open>new CounterContractService()\<close>, line 204: the three fields start as \<open>null\<close>\<close>
  "counterService = \<lparr>contract = None, provider = None, signer = None\<rparr>"

definition connect ::
  "config \<Rightarrow> world \<Rightarrow> service \<Rightarrow> call list \<Rightarrow> unit outcome \<times> service \<times> call list" where
  \<comment> \<open>lines 19 to 56; the two fields are assigned at lines 28 and 29, before the checks;
      a constructor that throws at line 28 leaves \<open>this.provider\<close> unassigned\<close>
  "connect cfg w s t =
     (if \<not> has_window w then (Rejects (new_Error msg_browser_only), s, t)
      else if \<not> has_ethereum w then (Rejects (new_Error msg_no_metamask), s, t)
      else
        (case new_BrowserProvider w of
           Inl e \<Rightarrow> (Rejects e, s, t)
         | Inr p \<Rightarrow>
             (let s1 = s\<lparr>provider := Some p\<rparr>;
                  t1 = t @ [ProviderGetSigner]
              in (case getSigner w t of
                    Rejects e \<Rightarrow> (Rejects e, s1, t1)
                  | Pending \<Rightarrow> (Pending, s1, t1)
                  | Resolves sg \<Rightarrow>
                      (let s2 = s1\<lparr>signer := Some sg\<rparr>;
                           t2 = t1 @ [ProviderGetNetwork]
                       in (case getNetwork w t1 of
                             Rejects e \<Rightarrow> (Rejects e, s2, t2)
                           | Pending \<Rightarrow> (Pending, s2, t2)
                           | Resolves net \<Rightarrow>
                               (if \<not> isAddress w (contractAddress cfg)
                                then (Rejects (new_Error
                                         (msg_invalid_address @ contractAddress cfg)),
                                      s2, t2)
                                else
                                  (let t3 = t2 @ [ProviderGetCode (contractAddress cfg)]
                                   in (case getCode w t2 (contractAddress cfg) of
                                         Rejects e \<Rightarrow> (Rejects e, s2, t3)
                                       | Pending \<Rightarrow> (Pending, s2, t3)
                                       | Resolves code \<Rightarrow>
                                           (if code = ''0x''
                                            then (Rejects (new_Error
                                                     (msg_not_deployed @ contractAddress cfg)),
                                                  s2, t3)
                                            else (Resolves (),
                                                  s2\<lparr>contract :=
                                                       Some (Contract (contractAddress cfg)
                                                               sg)\<rparr>,
                                                  t3)))))))))))"

definition isConnected :: "service \<Rightarrow> bool" where
  \<comment> \<open>lines 121 to 123\<close>
  "isConnected s = (contract s \<noteq> None)"

definition getCounter :: "world \<Rightarrow> service \<Rightarrow> call list \<Rightarrow> int outcome \<times> call list" where
  \<comment> \<open>lines 58 to 81\<close>
  "getCounter w s t =
     (case contract s of
        None \<Rightarrow> (Rejects (new_Error msg_contract_not_connected), t)
      | Some c \<Rightarrow>
          (let t1 = t @ [ContractGetCounter c]
           in (case contract_getCounter w t c of
                 Resolves result \<Rightarrow> (Resolves result, t1)
               | Pending \<Rightarrow> (Pending, t1)
               | Rejects error \<Rightarrow>
                   (case error of
                      ErrorObject message code \<Rightarrow>
                        (if includes_str message ''BAD_DATA''
                         then (Rejects (new_Error msg_bad_data), t1)
                         else (Rejects (new_Error (msg_read_failed @ message)), t1))
                    | PlainValue code \<Rightarrow>
                        (Rejects (new_Error (msg_read_failed @ msg_unknown_error)), t1)
                    | Nullish \<Rightarrow>
                        (Rejects (new_Error (msg_read_failed @ msg_unknown_error)), t1)))))"

definition incrementCounter :: "world \<Rightarrow> service \<Rightarrow> call list \<Rightarrow> unit outcome \<times> call list" where
  \<comment> \<open>lines 83 to 89\<close>
  "incrementCounter w s t =
     (case contract s of
        None \<Rightarrow> (Rejects (new_Error msg_contract_not_connected), t)
      | Some c \<Rightarrow>
          (let t1 = t @ [ContractIncrementCounter c]
           in (case contract_incrementCounter w t c of
                 Rejects e \<Rightarrow> (Rejects e, t1)
               | Pending \<Rightarrow> (Pending, t1)
               | Resolves tx \<Rightarrow>
                   (let t2 = t1 @ [TxWait tx]
                    in (case tx_wait w t1 tx of
                          Rejects e \<Rightarrow> (Rejects e, t2)
                        | Pending \<Rightarrow> (Pending, t2)
                        | Resolves receipt \<Rightarrow> (Resolves (), t2))))))"

definition decrementCounter :: "world \<Rightarrow> service \<Rightarrow> call list \<Rightarrow> unit outcome \<times> call list" where
  \<comment> \<open>lines 91 to 97\<close>
  "decrementCounter w s t =
     (case contract s of
        None \<Rightarrow> (Rejects (new_Error msg_contract_not_connected), t)
      | Some c \<Rightarrow>
          (let t1 = t @ [ContractDecrementCounter c]
           in (case contract_decrementCounter w t c of
                 Rejects e \<Rightarrow> (Rejects e, t1)
               | Pending \<Rightarrow> (Pending, t1)
               | Resolves tx \<Rightarrow>
                   (let t2 = t1 @ [TxWait tx]
                    in (case tx_wait w t1 tx of
                          Rejects e \<Rightarrow> (Rejects e, t2)
                        | Pending \<Rightarrow> (Pending, t2)
                        | Resolves receipt \<Rightarrow> (Resolves (), t2))))))"

definition resetCounter :: "world \<Rightarrow> service \<Rightarrow> call list \<Rightarrow> unit outcome \<times> call list" where
  \<comment> \<open>lines 99 to 105\<close>
  "resetCounter w s t =
     (case contract s of
        None \<Rightarrow> (Rejects (new_Error msg_contract_not_connected), t)
      | Some c \<Rightarrow>
          (let t1 = t @ [ContractResetCounter c]
           in (case contract_resetCounter w t c of
                 Rejects e \<Rightarrow> (Rejects e, t1)
               | Pending \<Rightarrow> (Pending, t1)
               | Resolves tx \<Rightarrow>
                   (let t2 = t1 @ [TxWait tx]
                    in (case tx_wait w t1 tx of
                          Rejects e \<Rightarrow> (Rejects e, t2)
                        | Pending \<Rightarrow> (Pending, t2)
                        | Resolves receipt \<Rightarrow> (Resolves (), t2))))))"

definition getOwner :: "world \<Rightarrow> service \<Rightarrow> call list \<Rightarrow> string outcome \<times> call list" where
  \<comment> \<open>lines 107 to 112\<close>
  "getOwner w s t =
     (case contract s of
        None \<Rightarrow> (Rejects (new_Error msg_contract_not_connected), t)
      | Some c \<Rightarrow> (contract_owner w t c, t @ [ContractOwner c]))"

definition getWalletAddress :: "world \<Rightarrow> service \<Rightarrow> call list \<Rightarrow> string outcome \<times> call list" where
  \<comment> \<open>lines 114 to 119\<close>
  "getWalletAddress w s t =
     (case signer s of
        None \<Rightarrow> (Rejects (new_Error msg_wallet_not_connected), t)
      | Some sg \<Rightarrow> (signer_getAddress w t sg, t @ [SignerGetAddress sg]))"

definition getNetworkInfo ::
  "world \<Rightarrow> service \<Rightarrow> call list \<Rightarrow> (int \<times> string) outcome \<times> call list" where
  \<comment> \<open>lines 125 to 134; the pair is the object \<open>{ chainId, name }\<close>\<close>
  "getNetworkInfo w s t =
     (case provider s of
        None \<Rightarrow> (Rejects (new_Error msg_provider_not_connected), t)
      | Some p \<Rightarrow>
          (let t1 = t @ [ProviderGetNetwork]
           in (case getNetwork w t of
                 Rejects e \<Rightarrow> (Rejects e, t1)
               | Pending \<Rightarrow> (Pending, t1)
               | Resolves network \<Rightarrow>
                   (Resolves (net_chainId network, net_name network), t1))))"

fun hex_digit :: "nat \<Rightarrow> char" where
  "hex_digit d = ''0123456789abcdef'' ! d"

fun toString16 :: "nat \<Rightarrow> string" where
  \<comment> \<open>\<open>Number.prototype.toString(16)\<close> on a non-negative integer\<close>
  "toString16 n =
     (if n < 16 then [hex_digit n] else toString16 (n div 16) @ [hex_digit (n mod 16)])"

declare toString16.simps [simp del]

definition switch_request :: "config \<Rightarrow> request_arguments" where
  \<comment> \<open>the argument of the request of lines 145 to 148, with \<open>sepoliaChainId\<close> of line 142\<close>
  "switch_request cfg =
     \<lparr>request_method = ''wallet_switchEthereumChain'',
      params = [SwitchChainParameter (''0x'' @ toString16 (chainId (CURRENT_NETWORK cfg)))]\<rparr>"

definition add_request :: "config \<Rightarrow> request_arguments" where
  \<comment> \<open>the argument of the request of lines 153 to 168\<close>
  "add_request cfg =
     \<lparr>request_method = ''wallet_addEthereumChain'',
      params =
        [AddChainParameter
           \<lparr>add_chainId = ''0x'' @ toString16 (chainId (CURRENT_NETWORK cfg)),
            chainName = name (CURRENT_NETWORK cfg),
            rpcUrls = [rpcUrl (CURRENT_NETWORK cfg)],
            blockExplorerUrls = [blockExplorer (CURRENT_NETWORK cfg)],
            nativeCurrency = \<lparr>currency_name = ''ETH'', symbol = ''ETH'', decimals = 18\<rparr>\<rparr>]\<rparr>"

definition switchToCorrectNetwork ::
  "config \<Rightarrow> world \<Rightarrow> call list \<Rightarrow> unit outcome \<times> call list" where
  \<comment> \<open>lines 136 to 176; line 137 reads \<open>window.ethereum\<close> without a \<open>typeof\<close>
      test, which raises a ReferenceError where \<open>window\<close> is not declared; line 151
      reads \<open>switchError.code\<close>, which raises a TypeError on \<open>null\<close> and
      \<open>undefined\<close>\<close>
  "switchToCorrectNetwork cfg w t =
     (if \<not> has_window w then (Rejects (new_Error (reference_error_message w)), t)
      else if \<not> has_ethereum w then (Rejects (new_Error msg_no_metamask), t)
      else
        (let t1 = t @ [EthereumRequest (switch_request cfg)]
         in (case ethereum_request w t (switch_request cfg) of
               Resolves u \<Rightarrow> (Resolves (), t1)
             | Pending \<Rightarrow> (Pending, t1)
             | Rejects switchError \<Rightarrow>
                 (if switchError = Nullish
                  then (Rejects (new_Error (type_error_message w)), t1)
                  else if code_of switchError = Some 4902
                  then
                    (let t2 = t1 @ [EthereumRequest (add_request cfg)]
                     in (case ethereum_request w t1 (add_request cfg) of
                           Resolves u \<Rightarrow> (Resolves (), t2)
                         | Pending \<Rightarrow> (Pending, t2)
                         | Rejects addError \<Rightarrow>
                             (Rejects (new_Error (name (CURRENT_NETWORK cfg) @ msg_cannot_add)),
                              t2)))
                  else (Rejects (new_Error msg_switch_failed), t1)))))"

record debug_info =
  debug_contractAddress :: string
  networkInfo :: "int \<times> string"
  contractCode :: string
  isContractDeployed :: bool

definition getContractDebugInfo ::
  "config \<Rightarrow> world \<Rightarrow> service \<Rightarrow> call list \<Rightarrow> debug_info outcome \<times> call list" where
  \<comment> \<open>lines 178 to 200\<close>
  "getContractDebugInfo cfg w s t =
     (case provider s of
        None \<Rightarrow> (Rejects (new_Error msg_provider_not_connected), t)
      | Some p \<Rightarrow>
          (let t1 = t @ [ProviderGetNetwork]
           in (case getNetwork w t of
                 Rejects e \<Rightarrow> (Rejects e, t1)
               | Pending \<Rightarrow> (Pending, t1)
               | Resolves network \<Rightarrow>
                   (let t2 = t1 @ [ProviderGetCode (contractAddress cfg)]
                    in (case getCode w t1 (contractAddress cfg) of
                          Rejects e \<Rightarrow> (Rejects e, t2)
                        | Pending \<Rightarrow> (Pending, t2)
                        | Resolves code \<Rightarrow>
                            (Resolves
                               \<lparr>debug_contractAddress = contractAddress cfg,
                                networkInfo = (net_chainId network, net_name network),
                                contractCode = code,
                                isContractDeployed = (code \<noteq> ''0x'')\<rparr>,
                             t2))))))"

subsection \<open>Concrete worlds\<close>

text \<open>
  A wallet on Sepolia with one unlocked account, where every call resolves and the
  contract is deployed. Its \<open>isAddress\<close> is a stand-in that accepts the strings of 42
  characters that start with \<open>0x\<close>. The other worlds differ from it in one answer.
\<close>

definition wallet_world :: world where
  "wallet_world =
     \<lparr>has_window = True,
      has_ethereum = True,
      new_BrowserProvider = Inr BrowserProvider,
      isAddress = (\<lambda>a. length a = 42 \<and> take 2 a = ''0x''),
      getSigner = (\<lambda>t. Resolves (JsonRpcSigner ''0xa11ce'')),
      getNetwork = (\<lambda>t. Resolves \<lparr>net_chainId = 11155111, net_name = ''sepolia''\<rparr>),
      getCode = (\<lambda>t a. Resolves ''0x6080604052''),
      contract_getCounter = (\<lambda>t c. Resolves 7),
      contract_incrementCounter = (\<lambda>t c. Resolves (ContractTransactionResponse ''0x01'')),
      contract_decrementCounter = (\<lambda>t c. Resolves (ContractTransactionResponse ''0x02'')),
      contract_resetCounter = (\<lambda>t c. Resolves (ContractTransactionResponse ''0x03'')),
      contract_owner = (\<lambda>t c. Resolves ''0x0123''),
      tx_wait = (\<lambda>t tx. Resolves ()),
      signer_getAddress = (\<lambda>t sg. Resolves ''0xa11ce''),
      ethereum_request = (\<lambda>t r. Resolves ()),
      reference_error_message = ''window is not defined'',
      type_error_message = ''Cannot read properties of undefined (reading code)''\<rparr>"

definition malformed_config :: config where
  "malformed_config = constants\<lparr>contractAddress := ''0x4195''\<rparr>"

definition empty_code_world :: world where
  "empty_code_world = wallet_world\<lparr>getCode := (\<lambda>t a. Resolves ''0x'')\<rparr>"

definition chain_change_world :: world where
  \<comment> \<open>the wallet moves to a chain without the contract after the first bytecode query\<close>
  "chain_change_world =
     wallet_world
       \<lparr>getCode := (\<lambda>t a. if ProviderGetCode a \<in> set t then Resolves ''0x''
                          else Resolves ''0x6080604052'')\<rparr>"

definition connected_service :: service where
  \<comment> \<open>the service after \<open>connect\<close> has succeeded in \<open>wallet_world\<close>\<close>
  "connected_service =
     \<lparr>contract = Some (Contract (contractAddress constants) (JsonRpcSigner ''0xa11ce'')),
      provider = Some BrowserProvider,
      signer = Some (JsonRpcSigner ''0xa11ce'')\<rparr>"

definition bad_data_world :: world where
  "bad_data_world =
     wallet_world
       \<lparr>contract_getCounter :=
          (\<lambda>t c. Rejects (ErrorObject ''could not decode result data (code=BAD_DATA)'' None))\<rparr>"

definition switch_rejected_world :: world where
  "switch_rejected_world =
     wallet_world
       \<lparr>ethereum_request :=
          (\<lambda>t r. Rejects (ErrorObject ''User rejected the request.'' (Some 4001)))\<rparr>"

definition unknown_chain_world :: world where
  \<comment> \<open>the wallet does not know the chain and the user refuses to add it\<close>
  "unknown_chain_world =
     wallet_world
       \<lparr>ethereum_request :=
          (\<lambda>t r. if request_method r = ''wallet_switchEthereumChain''
                  then Rejects (ErrorObject ''Unrecognized chain ID'' (Some 4902))
                  else Rejects (ErrorObject ''User rejected the request.'' (Some 4001)))\<rparr>"

definition tx_rejected_world :: world where
  "tx_rejected_world =
     wallet_world
       \<lparr>contract_incrementCounter :=
          (\<lambda>t c. Rejects (ErrorObject ''user rejected action'' None))\<rparr>"

definition tx_reverted_world :: world where
  "tx_reverted_world =
     wallet_world
       \<lparr>tx_wait := (\<lambda>t tx. Rejects (ErrorObject ''transaction execution reverted'' None))\<rparr>"

definition timeout_world :: world where
  "timeout_world =
     wallet_world\<lparr>contract_getCounter := (\<lambda>t c. Rejects (ErrorObject ''timeout'' None))\<rparr>"

definition pending_confirmation_world :: world where
  \<comment> \<open>transactions are submitted and never confirmed\<close>
  "pending_confirmation_world = wallet_world\<lparr>tx_wait := (\<lambda>t tx. Pending)\<rparr>"

definition strict_address_world :: world where
  \<comment> \<open>the bytecode query rejects a string that is not an address\<close>
  "strict_address_world =
     wallet_world
       \<lparr>getCode := (\<lambda>t a. if length a = 42 \<and> take 2 a = ''0x''
                          then Resolves ''0x6080604052''
                          else Rejects (ErrorObject ''unconfigured name'' None))\<rparr>"

definition no_request_world :: world where
  \<comment> \<open>\<open>window.ethereum\<close> is an object the provider constructor refuses\<close>
  "no_request_world =
     wallet_world
       \<lparr>new_BrowserProvider := Inl (ErrorObject ''invalid EIP-1193 provider'' None)\<rparr>"

section \<open>Auxiliary facts\<close>

lemma includes_str_iff: "includes_str s n \<longleftrightarrow> (\<exists>p q. s = p @ n @ q)"
proof (induction s)
  case Nil
  then show ?case by auto
next
  case (Cons c cs)
  show ?case
  proof
    assume "includes_str (c # cs) n"
    then consider "prefix n (c # cs)" | "includes_str cs n" by auto
    then show "\<exists>p q. c # cs = p @ n @ q"
    proof cases
      case 1
      then obtain q where "c # cs = n @ q" by (auto simp: prefix_def)
      then have "c # cs = [] @ n @ q" by simp
      then show ?thesis by blast
    next
      case 2
      with Cons.IH obtain p q where "cs = p @ n @ q" by blast
      then have "c # cs = (c # p) @ n @ q" by simp
      then show ?thesis by blast
    qed
  next
    assume "\<exists>p q. c # cs = p @ n @ q"
    then obtain p q where e: "c # cs = p @ n @ q" by blast
    show "includes_str (c # cs) n"
    proof (cases p)
      case Nil
      with e have "prefix n (c # cs)" by (auto simp: prefix_def)
      then show ?thesis by simp
    next
      case (Cons a p')
      with e have "cs = p' @ n @ q" by simp
      with Cons.IH have "includes_str cs n" by blast
      then show ?thesis by simp
    qed
  qed
qed

lemma includes_str_prefix: "includes_str (n @ rest) n"
proof -
  have "n @ rest = [] @ n @ rest" by simp
  then show ?thesis unfolding includes_str_iff by blast
qed

lemma sepolia_chain_id_hex: "''0x'' @ toString16 11155111 = ''0xaa36a7''"
  by (simp add: toString16.simps)

lemma switch_request_constants:
  "switch_request constants =
     \<lparr>request_method = ''wallet_switchEthereumChain'',
      params = [SwitchChainParameter ''0xaa36a7'']\<rparr>"
  using sepolia_chain_id_hex
  by (simp add: switch_request_def constants_def SUPPORTED_NETWORKS_sepolia_def)

lemma add_request_constants:
  "add_request constants =
     \<lparr>request_method = ''wallet_addEthereumChain'',
      params =
        [AddChainParameter
           \<lparr>add_chainId = ''0xaa36a7'',
            chainName = ''Sepolia Test Network'',
            rpcUrls = [''https://sepolia.infura.io/v3/''],
            blockExplorerUrls = [''https://sepolia.etherscan.io/''],
            nativeCurrency = \<lparr>currency_name = ''ETH'', symbol = ''ETH'', decimals = 18\<rparr>\<rparr>]\<rparr>"
  using sepolia_chain_id_hex
  by (simp add: add_request_def constants_def SUPPORTED_NETWORKS_sepolia_def)

lemma connect_wallet_world:
  "connect constants wallet_world counterService [] =
     (Resolves (), connected_service,
      [ProviderGetSigner, ProviderGetNetwork, ProviderGetCode (contractAddress constants)])"
  by (simp add: connect_def wallet_world_def counterService_def connected_service_def
      constants_def)

lemma connect_malformed_config:
  "connect malformed_config wallet_world counterService [] =
     (Rejects (new_Error (msg_invalid_address @ ''0x4195'')),
      \<lparr>contract = None, provider = Some BrowserProvider,
       signer = Some (JsonRpcSigner ''0xa11ce'')\<rparr>,
      [ProviderGetSigner, ProviderGetNetwork])"
  by (simp add: connect_def wallet_world_def counterService_def malformed_config_def
      constants_def)

lemma connect_empty_code_world:
  "connect constants empty_code_world counterService [] =
     (Rejects (new_Error (msg_not_deployed @ contractAddress constants)),
      \<lparr>contract = None, provider = Some BrowserProvider,
       signer = Some (JsonRpcSigner ''0xa11ce'')\<rparr>,
      [ProviderGetSigner, ProviderGetNetwork, ProviderGetCode (contractAddress constants)])"
  by (simp add: connect_def empty_code_world_def wallet_world_def counterService_def
      constants_def)

lemma connect_no_request_world:
  "connect constants no_request_world counterService [] =
     (Rejects (ErrorObject ''invalid EIP-1193 provider'' None), counterService, [])"
  by (simp add: connect_def no_request_world_def wallet_world_def)

section \<open>The session fields across \<open>connect\<close>\<close>

text \<open>
  Claim C1, as stated: the three fields are all present if and only if \<open>connect\<close>
  returns without error, and a failed \<open>connect\<close> retains none of them. The source
  assigns \<open>this.provider\<close> and \<open>this.signer\<close> (lines 28 and 29) before it validates
  the address and the bytecode, and no path assigns \<open>null\<close>: with a malformed configured
  address, \<open>connect\<close> on the fresh service fails and leaves the provider and the signer
  set and the contract handle absent.
\<close>

theorem connect_partial_session_counterexample:
  "fst (connect malformed_config wallet_world counterService []) =
     Rejects (new_Error (msg_invalid_address @ ''0x4195'')) \<and>
   provider (fst (snd (connect malformed_config wallet_world counterService []))) =
     Some BrowserProvider \<and>
   signer (fst (snd (connect malformed_config wallet_world counterService []))) =
     Some (JsonRpcSigner ''0xa11ce'') \<and>
   contract (fst (snd (connect malformed_config wallet_world counterService []))) = None"
  by (simp add: connect_malformed_config)

text \<open>
  Claim C1, amended: if \<open>connect\<close> returns without error, the provider, the signer and
  the contract handle are all present afterwards. If it does not, the contract handle is
  what it was before the call (absent on a fresh service), and no field is cleared: a
  provider or signer that was present stays present. When the environment has a wallet
  and the provider constructor returns, the provider assigned by the attempt is retained;
  when the environment has no wallet or the provider constructor throws, the three fields
  are what they were before the call and no call has been made.
\<close>

theorem connect_session_fields:
  assumes "connect cfg w s t = (r, s', t')"
  shows "(r = Resolves () \<longrightarrow> provider s' \<noteq> None \<and> signer s' \<noteq> None \<and> contract s' \<noteq> None) \<and>
         (r \<noteq> Resolves () \<longrightarrow>
            contract s' = contract s \<and>
            (provider s \<noteq> None \<longrightarrow> provider s' \<noteq> None) \<and>
            (signer s \<noteq> None \<longrightarrow> signer s' \<noteq> None) \<and>
            (has_window w \<and> has_ethereum w \<and> new_BrowserProvider w = Inr p \<longrightarrow>
               provider s' = Some p)) \<and>
         (\<not> has_window w \<or> \<not> has_ethereum w \<or> new_BrowserProvider w = Inl e \<longrightarrow>
            r \<noteq> Resolves () \<and> s' = s \<and> t' = t)"
proof (intro conjI)
  show "r = Resolves () \<longrightarrow> provider s' \<noteq> None \<and> signer s' \<noteq> None \<and> contract s' \<noteq> None"
    using assms
    by (auto simp: connect_def Let_def split: if_splits sum.splits outcome.splits)
  show "r \<noteq> Resolves () \<longrightarrow>
          contract s' = contract s \<and>
          (provider s \<noteq> None \<longrightarrow> provider s' \<noteq> None) \<and>
          (signer s \<noteq> None \<longrightarrow> signer s' \<noteq> None) \<and>
          (has_window w \<and> has_ethereum w \<and> new_BrowserProvider w = Inr p \<longrightarrow>
             provider s' = Some p)"
    using assms
    by (auto simp: connect_def Let_def split: if_splits sum.splits outcome.splits)
  show "\<not> has_window w \<or> \<not> has_ethereum w \<or> new_BrowserProvider w = Inl e \<longrightarrow>
          r \<noteq> Resolves () \<and> s' = s \<and> t' = t"
    using assms
    by (auto simp: connect_def Let_def split: if_splits)
qed

theorem connect_session_fields_witness:
  "connect constants wallet_world counterService [] =
     (Resolves (), connected_service,
      [ProviderGetSigner, ProviderGetNetwork, ProviderGetCode (contractAddress constants)]) \<and>
   provider connected_service \<noteq> None \<and> signer connected_service \<noteq> None \<and>
   contract connected_service \<noteq> None \<and>
   fst (connect constants empty_code_world counterService []) \<noteq> Resolves () \<and>
   has_window empty_code_world \<and> has_ethereum empty_code_world \<and>
   new_BrowserProvider empty_code_world = Inr BrowserProvider \<and>
   contract (fst (snd (connect constants empty_code_world counterService []))) =
     contract counterService \<and>
   provider (fst (snd (connect constants empty_code_world counterService []))) =
     Some BrowserProvider \<and>
   new_BrowserProvider no_request_world =
     Inl (ErrorObject ''invalid EIP-1193 provider'' None) \<and>
   connect constants no_request_world counterService [] =
     (Rejects (ErrorObject ''invalid EIP-1193 provider'' None), counterService, [])"
proof -
  have env: "has_window empty_code_world \<and> has_ethereum empty_code_world \<and>
      new_BrowserProvider empty_code_world = Inr BrowserProvider"
    by (simp add: empty_code_world_def wallet_world_def)
  have thrown: "new_BrowserProvider no_request_world =
      Inl (ErrorObject ''invalid EIP-1193 provider'' None)"
    by (simp add: no_request_world_def)
  have fresh: "contract counterService = None"
    by (simp add: counterService_def)
  show ?thesis
    using connect_session_fields [OF connect_wallet_world]
      connect_session_fields [OF connect_empty_code_world, of BrowserProvider]
      connect_session_fields [OF connect_no_request_world, of _
        "ErrorObject ''invalid EIP-1193 provider'' None"]
      env thrown fresh
    by (simp add: connect_wallet_world connect_empty_code_world connect_no_request_world)
qed

section \<open>Operations on a service that is not connected\<close>

text \<open>
  Claim C2: whenever \<open>isConnected()\<close> is false, each of \<open>getCounter\<close>,
  \<open>incrementCounter\<close>, \<open>decrementCounter\<close>, \<open>resetCounter\<close> and \<open>getOwner\<close> rejects
  with the error "not connected to the contract" and makes no call at all: the list of
  calls is returned as it was given.
\<close>

theorem not_connected_fails_without_calls:
  assumes "\<not> isConnected s"
  shows "getCounter w s t = (Rejects (new_Error msg_contract_not_connected), t) \<and>
         incrementCounter w s t = (Rejects (new_Error msg_contract_not_connected), t) \<and>
         decrementCounter w s t = (Rejects (new_Error msg_contract_not_connected), t) \<and>
         resetCounter w s t = (Rejects (new_Error msg_contract_not_connected), t) \<and>
         getOwner w s t = (Rejects (new_Error msg_contract_not_connected), t)"
  using assms
  by (simp add: isConnected_def getCounter_def incrementCounter_def decrementCounter_def
      resetCounter_def getOwner_def)

theorem not_connected_fails_without_calls_witness:
  "\<not> isConnected counterService \<and>
   getCounter wallet_world counterService [] =
     (Rejects (new_Error msg_contract_not_connected), []) \<and>
   incrementCounter wallet_world counterService [] =
     (Rejects (new_Error msg_contract_not_connected), []) \<and>
   decrementCounter wallet_world counterService [] =
     (Rejects (new_Error msg_contract_not_connected), []) \<and>
   resetCounter wallet_world counterService [] =
     (Rejects (new_Error msg_contract_not_connected), []) \<and>
   getOwner wallet_world counterService [] =
     (Rejects (new_Error msg_contract_not_connected), [])"
proof -
  have h: "\<not> isConnected counterService"
    by (simp add: isConnected_def counterService_def)
  show ?thesis
    using h not_connected_fails_without_calls [OF h, of wallet_world "[]"] by simp
qed

section \<open>A malformed configured address\<close>

text \<open>
  Claim C3, as stated: with a malformed configured address \<open>connect\<close> fails with the
  invalid-address error before it makes any network call. The source acquires the signer
  (line 29) and queries the network (line 32) before it validates the address (line 36):
  in a world where both resolve, \<open>connect\<close> has made these two calls when it rejects.
\<close>

theorem connect_malformed_address_counterexample:
  "\<not> isAddress wallet_world (contractAddress malformed_config) \<and>
   fst (connect malformed_config wallet_world counterService []) =
     Rejects (new_Error (msg_invalid_address @ contractAddress malformed_config)) \<and>
   snd (snd (connect malformed_config wallet_world counterService [])) =
     [ProviderGetSigner, ProviderGetNetwork]"
  by (simp add: connect_malformed_config)
    (simp add: malformed_config_def wallet_world_def)

text \<open>
  Claim C3, amended: with a malformed configured address \<open>connect\<close> never returns
  without error and never issues the bytecode query: the calls it makes are a prefix of
  the signer acquisition followed by the network query. When the environment has a
  wallet, the provider constructor returns and these two calls resolve, \<open>connect\<close>
  fails with the invalid-address error, whose message carries the address, after exactly
  these two calls.
\<close>

theorem connect_malformed_address:
  assumes "\<not> isAddress w (contractAddress cfg)"
  shows "fst (connect cfg w s t) \<noteq> Resolves () \<and>
         (\<exists>cs. snd (snd (connect cfg w s t)) = t @ cs \<and>
               prefix cs [ProviderGetSigner, ProviderGetNetwork]) \<and>
         (has_window w \<and> has_ethereum w \<and> new_BrowserProvider w = Inr p \<and>
          getSigner w t = Resolves sg \<and>
          getNetwork w (t @ [ProviderGetSigner]) = Resolves net \<longrightarrow>
            connect cfg w s t =
              (Rejects (new_Error (msg_invalid_address @ contractAddress cfg)),
               s\<lparr>provider := Some p, signer := Some sg\<rparr>,
               t @ [ProviderGetSigner, ProviderGetNetwork]))"
proof (intro conjI)
  show "fst (connect cfg w s t) \<noteq> Resolves ()"
    using assms by (simp add: connect_def Let_def split: sum.splits outcome.splits)
next
  have "snd (snd (connect cfg w s t)) = t @ [] \<or>
        snd (snd (connect cfg w s t)) = t @ [ProviderGetSigner] \<or>
        snd (snd (connect cfg w s t)) = t @ [ProviderGetSigner, ProviderGetNetwork]"
    using assms by (simp add: connect_def Let_def split: sum.splits outcome.splits)
  moreover have "prefix [] [ProviderGetSigner, ProviderGetNetwork]"
    and "prefix [ProviderGetSigner] [ProviderGetSigner, ProviderGetNetwork]"
    and "prefix [ProviderGetSigner, ProviderGetNetwork] [ProviderGetSigner, ProviderGetNetwork]"
    by simp_all
  ultimately show "\<exists>cs. snd (snd (connect cfg w s t)) = t @ cs \<and>
                        prefix cs [ProviderGetSigner, ProviderGetNetwork]"
    by blast
next
  show "has_window w \<and> has_ethereum w \<and> new_BrowserProvider w = Inr p \<and>
        getSigner w t = Resolves sg \<and>
        getNetwork w (t @ [ProviderGetSigner]) = Resolves net \<longrightarrow>
          connect cfg w s t =
            (Rejects (new_Error (msg_invalid_address @ contractAddress cfg)),
             s\<lparr>provider := Some p, signer := Some sg\<rparr>,
             t @ [ProviderGetSigner, ProviderGetNetwork])"
    using assms by (simp add: connect_def Let_def)
qed

theorem connect_malformed_address_witness:
  "\<not> isAddress wallet_world (contractAddress malformed_config) \<and>
   has_window wallet_world \<and> has_ethereum wallet_world \<and>
   new_BrowserProvider wallet_world = Inr BrowserProvider \<and>
   getSigner wallet_world [] = Resolves (JsonRpcSigner ''0xa11ce'') \<and>
   getNetwork wallet_world ([] @ [ProviderGetSigner]) =
     Resolves \<lparr>net_chainId = 11155111, net_name = ''sepolia''\<rparr> \<and>
   connect malformed_config wallet_world counterService [] =
     (Rejects (new_Error (msg_invalid_address @ contractAddress malformed_config)),
      counterService\<lparr>provider := Some BrowserProvider,
        signer := Some (JsonRpcSigner ''0xa11ce'')\<rparr>,
      [] @ [ProviderGetSigner, ProviderGetNetwork])"
proof -
  have h: "\<not> isAddress wallet_world (contractAddress malformed_config)"
    by (simp add: malformed_config_def wallet_world_def)
  have env: "has_window wallet_world \<and> has_ethereum wallet_world \<and>
      new_BrowserProvider wallet_world = Inr BrowserProvider \<and>
      getSigner wallet_world [] = Resolves (JsonRpcSigner ''0xa11ce'') \<and>
      getNetwork wallet_world ([] @ [ProviderGetSigner]) =
        Resolves \<lparr>net_chainId = 11155111, net_name = ''sepolia''\<rparr>"
    by (simp add: wallet_world_def)
  show ?thesis
    using h env
      connect_malformed_address [OF h, of counterService "[]" BrowserProvider
        "JsonRpcSigner ''0xa11ce''" "\<lparr>net_chainId = 11155111, net_name = ''sepolia''\<rparr>"]
    by blast
qed

section \<open>Empty bytecode at the configured address\<close>

text \<open>
  Claim C4, as stated: when the bytecode at the configured address is empty, \<open>connect\<close>
  fails with the not-deployed error and \<open>isConnected()\<close> returns false afterwards. The
  first half holds. The second does not hold on a service that an earlier \<open>connect\<close>
  has connected: the failing \<open>connect\<close> throws at line 46 and \<open>this.contract\<close> keeps
  the handle of the earlier call. Below, the first \<open>connect\<close> succeeds, the wallet then
  moves to a chain without the contract, and the second \<open>connect\<close> fails while
  \<open>isConnected()\<close> is still true.
\<close>

theorem connect_not_deployed_counterexample:
  "connect constants chain_change_world counterService [] =
     (Resolves (), connected_service,
      [ProviderGetSigner, ProviderGetNetwork, ProviderGetCode (contractAddress constants)]) \<and>
   getCode chain_change_world
     [ProviderGetSigner, ProviderGetNetwork, ProviderGetCode (contractAddress constants),
      ProviderGetSigner, ProviderGetNetwork]
     (contractAddress constants) = Resolves ''0x'' \<and>
   fst (connect constants chain_change_world connected_service
     [ProviderGetSigner, ProviderGetNetwork, ProviderGetCode (contractAddress constants)]) =
     Rejects (new_Error (msg_not_deployed @ contractAddress constants)) \<and>
   isConnected (fst (snd (connect constants chain_change_world connected_service
     [ProviderGetSigner, ProviderGetNetwork, ProviderGetCode (contractAddress constants)])))"
  by (simp add: connect_def chain_change_world_def wallet_world_def counterService_def
      connected_service_def constants_def isConnected_def)

text \<open>
  Claim C4, amended: when the environment has a wallet, the provider constructor
  returns, the signer acquisition and the network query resolve, the configured address
  is well-formed and the bytecode query resolves with \<open>0x\<close>, \<open>connect\<close> fails with the not-deployed error, whose message
  carries the address, and leaves the contract handle as it was: \<open>isConnected()\<close>
  returns afterwards what it returned before the call, so it is false after the failed
  \<open>connect\<close> whenever it was false before it.
\<close>

theorem connect_not_deployed:
  assumes "has_window w" and "has_ethereum w"
    and "new_BrowserProvider w = Inr p"
    and "getSigner w t = Resolves sg"
    and "getNetwork w (t @ [ProviderGetSigner]) = Resolves net"
    and "isAddress w (contractAddress cfg)"
    and "getCode w (t @ [ProviderGetSigner, ProviderGetNetwork]) (contractAddress cfg) =
           Resolves ''0x''"
  shows "fst (connect cfg w s t) =
           Rejects (new_Error (msg_not_deployed @ contractAddress cfg)) \<and>
         contract (fst (snd (connect cfg w s t))) = contract s \<and>
         isConnected (fst (snd (connect cfg w s t))) = isConnected s"
  using assms by (simp add: connect_def Let_def isConnected_def)

theorem connect_not_deployed_witness:
  "has_window empty_code_world \<and> has_ethereum empty_code_world \<and>
   new_BrowserProvider empty_code_world = Inr BrowserProvider \<and>
   getSigner empty_code_world [] = Resolves (JsonRpcSigner ''0xa11ce'') \<and>
   getNetwork empty_code_world ([] @ [ProviderGetSigner]) =
     Resolves \<lparr>net_chainId = 11155111, net_name = ''sepolia''\<rparr> \<and>
   isAddress empty_code_world (contractAddress constants) \<and>
   getCode empty_code_world ([] @ [ProviderGetSigner, ProviderGetNetwork])
     (contractAddress constants) = Resolves ''0x'' \<and>
   fst (connect constants empty_code_world counterService []) =
     Rejects (new_Error (msg_not_deployed @ contractAddress constants)) \<and>
   isConnected (fst (snd (connect constants empty_code_world counterService []))) = False"
proof -
  have a: "has_window empty_code_world" and b: "has_ethereum empty_code_world"
    and p: "new_BrowserProvider empty_code_world = Inr BrowserProvider"
    and c: "getSigner empty_code_world [] = Resolves (JsonRpcSigner ''0xa11ce'')"
    and d: "getNetwork empty_code_world ([] @ [ProviderGetSigner]) =
              Resolves \<lparr>net_chainId = 11155111, net_name = ''sepolia''\<rparr>"
    and e: "isAddress empty_code_world (contractAddress constants)"
    and f: "getCode empty_code_world ([] @ [ProviderGetSigner, ProviderGetNetwork])
              (contractAddress constants) = Resolves ''0x''"
    by (simp_all add: empty_code_world_def wallet_world_def constants_def)
  have g: "isConnected counterService = False"
    by (simp add: isConnected_def counterService_def)
  show ?thesis
    using a b p c d e f g connect_not_deployed [OF a b p c d e f, of counterService]
    by simp
qed

section \<open>Errors of the read call\<close>

text \<open>
  Claim C5: when the service is connected and the read call rejects with an \<open>Error\<close>
  object, \<open>getCounter\<close> rejects with the wrong-deployment error if the message of that
  object contains \<open>BAD_DATA\<close>, and otherwise with the read-failure error, whose message
  is the fixed prefix followed by the message of the underlying error. The two are told
  apart by their messages: the wrong-deployment message does not start with the
  read-failure prefix. (A rejection with a value that is not an \<open>Error\<close> object has no
  message the source reads; it becomes the read-failure error with the text
  "unknown error".)
\<close>

theorem getCounter_rewraps_errors:
  assumes "contract s = Some c"
    and "contract_getCounter w t c = Rejects (ErrorObject m code)"
  shows "((\<exists>p q. m = p @ ''BAD_DATA'' @ q) \<longrightarrow>
            fst (getCounter w s t) = Rejects (new_Error msg_bad_data)) \<and>
         (\<not> (\<exists>p q. m = p @ ''BAD_DATA'' @ q) \<longrightarrow>
            fst (getCounter w s t) = Rejects (new_Error (msg_read_failed @ m))) \<and>
         msg_bad_data \<noteq> msg_read_failed @ m'"
proof -
  have "fst (getCounter w s t) =
          (if includes_str m ''BAD_DATA'' then Rejects (new_Error msg_bad_data)
           else Rejects (new_Error (msg_read_failed @ m)))"
    using assms by (simp add: getCounter_def Let_def)
  moreover have "msg_bad_data \<noteq> msg_read_failed @ m'"
    by (simp add: msg_bad_data_def msg_read_failed_def)
  ultimately show ?thesis
    by (simp add: includes_str_iff)
qed

theorem getCounter_rewraps_errors_witness:
  "contract connected_service =
     Some (Contract (contractAddress constants) (JsonRpcSigner ''0xa11ce'')) \<and>
   contract_getCounter bad_data_world []
     (Contract (contractAddress constants) (JsonRpcSigner ''0xa11ce'')) =
     Rejects (ErrorObject ''could not decode result data (code=BAD_DATA)'' None) \<and>
   ''could not decode result data (code=BAD_DATA)'' =
     ''could not decode result data (code='' @ ''BAD_DATA'' @ '')'' \<and>
   fst (getCounter bad_data_world connected_service []) = Rejects (new_Error msg_bad_data) \<and>
   contract_getCounter timeout_world []
     (Contract (contractAddress constants) (JsonRpcSigner ''0xa11ce'')) =
     Rejects (ErrorObject ''timeout'' None) \<and>
   fst (getCounter timeout_world connected_service []) =
     Rejects (new_Error (msg_read_failed @ ''timeout''))"
proof -
  have a: "contract connected_service =
      Some (Contract (contractAddress constants) (JsonRpcSigner ''0xa11ce''))"
    by (simp add: connected_service_def)
  have b: "contract_getCounter bad_data_world []
      (Contract (contractAddress constants) (JsonRpcSigner ''0xa11ce'')) =
      Rejects (ErrorObject ''could not decode result data (code=BAD_DATA)'' None)"
    by (simp add: bad_data_world_def wallet_world_def)
  have c: "''could not decode result data (code=BAD_DATA)'' =
      ''could not decode result data (code='' @ ''BAD_DATA'' @ '')''"
    by simp
  then have c': "\<exists>p q. ''could not decode result data (code=BAD_DATA)'' = p @ ''BAD_DATA'' @ q"
    by blast
  have d: "contract_getCounter timeout_world []
      (Contract (contractAddress constants) (JsonRpcSigner ''0xa11ce'')) =
      Rejects (ErrorObject ''timeout'' None)"
    by (simp add: timeout_world_def wallet_world_def)
  have "\<not> includes_str ''timeout'' ''BAD_DATA''"
    by simp
  then have e: "\<not> (\<exists>p q. ''timeout'' = p @ ''BAD_DATA'' @ q)"
    unfolding includes_str_iff .
  show ?thesis
    using a b c c' d e getCounter_rewraps_errors [OF a b] getCounter_rewraps_errors [OF a d]
    by blast
qed

section \<open>Switching the wallet to the required network\<close>

text \<open>
  Claim C6: in an environment with a wallet, \<open>switchToCorrectNetwork\<close> first issues the
  request \<open>wallet_switchEthereumChain\<close> with the chain id \<open>0xaa36a7\<close> (11155111 in
  hexadecimal). If that request rejects with a value whose \<open>code\<close> is 4902, it then
  issues \<open>wallet_addEthereumChain\<close> with the same chain id, the chain name
  "Sepolia Test Network", the configured RPC and block explorer URLs and the native
  currency ETH/ETH/18, and these two requests are all it issues. Otherwise the switch
  request is the only request.
\<close>

theorem switchToCorrectNetwork_requests:
  assumes "has_window w" and "has_ethereum w"
  shows "((\<exists>e. ethereum_request w t
               \<lparr>request_method = ''wallet_switchEthereumChain'',
                params = [SwitchChainParameter ''0xaa36a7'']\<rparr> = Rejects e \<and>
              code_of e = Some 4902) \<longrightarrow>
            snd (switchToCorrectNetwork constants w t) =
              t @ [EthereumRequest
                     \<lparr>request_method = ''wallet_switchEthereumChain'',
                      params = [SwitchChainParameter ''0xaa36a7'']\<rparr>,
                   EthereumRequest
                     \<lparr>request_method = ''wallet_addEthereumChain'',
                      params =
                        [AddChainParameter
                           \<lparr>add_chainId = ''0xaa36a7'',
                            chainName = ''Sepolia Test Network'',
                            rpcUrls = [''https://sepolia.infura.io/v3/''],
                            blockExplorerUrls = [''https://sepolia.etherscan.io/''],
                            nativeCurrency =
                              \<lparr>currency_name = ''ETH'', symbol = ''ETH'',
                               decimals = 18\<rparr>\<rparr>]\<rparr>]) \<and>
         (\<not> (\<exists>e. ethereum_request w t
                 \<lparr>request_method = ''wallet_switchEthereumChain'',
                  params = [SwitchChainParameter ''0xaa36a7'']\<rparr> = Rejects e \<and>
                code_of e = Some 4902) \<longrightarrow>
            snd (switchToCorrectNetwork constants w t) =
              t @ [EthereumRequest
                     \<lparr>request_method = ''wallet_switchEthereumChain'',
                      params = [SwitchChainParameter ''0xaa36a7'']\<rparr>])"
  using assms
  by (auto simp: switchToCorrectNetwork_def Let_def switch_request_constants
      add_request_constants split: outcome.splits)

theorem switchToCorrectNetwork_requests_witness:
  "has_window unknown_chain_world \<and> has_ethereum unknown_chain_world \<and>
   ethereum_request unknown_chain_world []
     \<lparr>request_method = ''wallet_switchEthereumChain'',
      params = [SwitchChainParameter ''0xaa36a7'']\<rparr> =
     Rejects (ErrorObject ''Unrecognized chain ID'' (Some 4902)) \<and>
   snd (switchToCorrectNetwork constants unknown_chain_world []) =
     [EthereumRequest
        \<lparr>request_method = ''wallet_switchEthereumChain'',
         params = [SwitchChainParameter ''0xaa36a7'']\<rparr>,
      EthereumRequest
        \<lparr>request_method = ''wallet_addEthereumChain'',
         params =
           [AddChainParameter
              \<lparr>add_chainId = ''0xaa36a7'',
               chainName = ''Sepolia Test Network'',
               rpcUrls = [''https://sepolia.infura.io/v3/''],
               blockExplorerUrls = [''https://sepolia.etherscan.io/''],
               nativeCurrency =
                 \<lparr>currency_name = ''ETH'', symbol = ''ETH'', decimals = 18\<rparr>\<rparr>]\<rparr>] \<and>
   has_window switch_rejected_world \<and> has_ethereum switch_rejected_world \<and>
   ethereum_request switch_rejected_world []
     \<lparr>request_method = ''wallet_switchEthereumChain'',
      params = [SwitchChainParameter ''0xaa36a7'']\<rparr> =
     Rejects (ErrorObject ''User rejected the request.'' (Some 4001)) \<and>
   snd (switchToCorrectNetwork constants switch_rejected_world []) =
     [EthereumRequest
        \<lparr>request_method = ''wallet_switchEthereumChain'',
         params = [SwitchChainParameter ''0xaa36a7'']\<rparr>]"
proof -
  have a: "has_window unknown_chain_world" and b: "has_ethereum unknown_chain_world"
    and c: "ethereum_request unknown_chain_world []
      \<lparr>request_method = ''wallet_switchEthereumChain'',
       params = [SwitchChainParameter ''0xaa36a7'']\<rparr> =
      Rejects (ErrorObject ''Unrecognized chain ID'' (Some 4902))"
    by (simp_all add: unknown_chain_world_def wallet_world_def)
  have a': "has_window switch_rejected_world" and b': "has_ethereum switch_rejected_world"
    and c': "ethereum_request switch_rejected_world []
      \<lparr>request_method = ''wallet_switchEthereumChain'',
       params = [SwitchChainParameter ''0xaa36a7'']\<rparr> =
      Rejects (ErrorObject ''User rejected the request.'' (Some 4001))"
    by (simp_all add: switch_rejected_world_def wallet_world_def)
  show ?thesis
    using a b c a' b' c'
      switchToCorrectNetwork_requests [OF a b, of "[]"]
      switchToCorrectNetwork_requests [OF a' b', of "[]"]
    by simp
qed

text \<open>
  Claim C7, as stated: every failure other than the chain-not-registered case surfaces
  as a network-switch error whose message names the required network. When the switch
  request rejects with a code other than 4902, the source throws the fixed message of
  line 173 ("Failed to switch the network."), which does not contain the name of the
  required network.
\<close>

theorem switch_failure_message_counterexample:
  "ethereum_request switch_rejected_world [] (switch_request constants) =
     Rejects (ErrorObject ''User rejected the request.'' (Some 4001)) \<and>
   fst (switchToCorrectNetwork constants switch_rejected_world []) =
     Rejects (new_Error msg_switch_failed) \<and>
   name (CURRENT_NETWORK constants) = ''Sepolia Test Network'' \<and>
   \<not> includes_str msg_switch_failed (name (CURRENT_NETWORK constants))"
proof -
  have "\<not> includes_str msg_switch_failed ''Sepolia Test Network''"
    by (simp add: msg_switch_failed_def)
  then show ?thesis
    by (simp add: switchToCorrectNetwork_def Let_def switch_rejected_world_def
        wallet_world_def constants_def SUPPORTED_NETWORKS_sepolia_def)
qed

text \<open>
  Claim C7, amended: in an environment with a wallet, when the switch request rejects
  with a value other than \<open>null\<close> or \<open>undefined\<close> whose code is not 4902, the operation
  fails with the fixed network-switch error "Failed to switch the network.", which does
  not name a network; when the switch request rejects with code 4902 and the
  registration request then rejects, with any value, the operation fails with the
  network-switch error whose message is the name of the required network followed by
  "cannot be added", and so names the required network.
\<close>

theorem switchToCorrectNetwork_failures:
  assumes "has_window w" and "has_ethereum w"
    and "ethereum_request w t (switch_request cfg) = Rejects e"
    and "e \<noteq> Nullish"
  shows "(code_of e \<noteq> Some 4902 \<longrightarrow>
            fst (switchToCorrectNetwork cfg w t) = Rejects (new_Error msg_switch_failed)) \<and>
         (code_of e = Some 4902 \<and>
          ethereum_request w (t @ [EthereumRequest (switch_request cfg)]) (add_request cfg) =
            Rejects e' \<longrightarrow>
            fst (switchToCorrectNetwork cfg w t) =
              Rejects (new_Error (name (CURRENT_NETWORK cfg) @ msg_cannot_add)) \<and>
            includes_str (name (CURRENT_NETWORK cfg) @ msg_cannot_add)
              (name (CURRENT_NETWORK cfg)))"
  using assms
  by (simp add: switchToCorrectNetwork_def Let_def includes_str_prefix)

theorem switchToCorrectNetwork_failures_witness:
  "has_window unknown_chain_world \<and> has_ethereum unknown_chain_world \<and>
   ethereum_request unknown_chain_world [] (switch_request constants) =
     Rejects (ErrorObject ''Unrecognized chain ID'' (Some 4902)) \<and>
   ErrorObject ''Unrecognized chain ID'' (Some 4902) \<noteq> Nullish \<and>
   code_of (ErrorObject ''Unrecognized chain ID'' (Some 4902)) = Some 4902 \<and>
   ethereum_request unknown_chain_world ([] @ [EthereumRequest (switch_request constants)])
     (add_request constants) =
     Rejects (ErrorObject ''User rejected the request.'' (Some 4001)) \<and>
   fst (switchToCorrectNetwork constants unknown_chain_world []) =
     Rejects (new_Error (name (CURRENT_NETWORK constants) @ msg_cannot_add)) \<and>
   has_window switch_rejected_world \<and> has_ethereum switch_rejected_world \<and>
   ethereum_request switch_rejected_world [] (switch_request constants) =
     Rejects (ErrorObject ''User rejected the request.'' (Some 4001)) \<and>
   ErrorObject ''User rejected the request.'' (Some 4001) \<noteq> Nullish \<and>
   code_of (ErrorObject ''User rejected the request.'' (Some 4001)) \<noteq> Some 4902 \<and>
   fst (switchToCorrectNetwork constants switch_rejected_world []) =
     Rejects (new_Error msg_switch_failed)"
proof -
  have a: "has_window unknown_chain_world" and b: "has_ethereum unknown_chain_world"
    and c: "ethereum_request unknown_chain_world [] (switch_request constants) =
      Rejects (ErrorObject ''Unrecognized chain ID'' (Some 4902))"
    and d: "ethereum_request unknown_chain_world
      ([] @ [EthereumRequest (switch_request constants)]) (add_request constants) =
      Rejects (ErrorObject ''User rejected the request.'' (Some 4001))"
    by (simp_all add: unknown_chain_world_def wallet_world_def switch_request_constants
        add_request_constants)
  have n: "ErrorObject ''Unrecognized chain ID'' (Some 4902) \<noteq> Nullish"
    and k: "code_of (ErrorObject ''Unrecognized chain ID'' (Some 4902)) = Some 4902"
    by simp_all
  have a': "has_window switch_rejected_world" and b': "has_ethereum switch_rejected_world"
    and c': "ethereum_request switch_rejected_world [] (switch_request constants) =
      Rejects (ErrorObject ''User rejected the request.'' (Some 4001))"
    by (simp_all add: switch_rejected_world_def wallet_world_def)
  have n': "ErrorObject ''User rejected the request.'' (Some 4001) \<noteq> Nullish"
    and k': "code_of (ErrorObject ''User rejected the request.'' (Some 4001)) \<noteq> Some 4902"
    by simp_all
  show ?thesis
    using a b c d n k a' b' c' n' k'
      switchToCorrectNetwork_failures [OF a b c n,
        of "ErrorObject ''User rejected the request.'' (Some 4001)"]
      switchToCorrectNetwork_failures [OF a' b' c' n']
    by blast
qed

section \<open>The mutating operations\<close>

text \<open>
  Claim C8, as stated: a failure of the submission or of the confirmation is raised as a
  transaction-failed error that wraps the underlying reason. The three methods have no
  \<open>try\<close>/\<open>catch\<close> (lines 83 to 105): the value the contract call rejects with is the
  value the method rejects with, and the source has no transaction-failed message.
\<close>

theorem mutation_raw_error_counterexample:
  "contract connected_service =
     Some (Contract (contractAddress constants) (JsonRpcSigner ''0xa11ce'')) \<and>
   contract_incrementCounter tx_rejected_world []
     (Contract (contractAddress constants) (JsonRpcSigner ''0xa11ce'')) =
     Rejects (ErrorObject ''user rejected action'' None) \<and>
   fst (incrementCounter tx_rejected_world connected_service []) =
     Rejects (ErrorObject ''user rejected action'' None)"
  by (simp add: incrementCounter_def tx_rejected_world_def wallet_world_def
      connected_service_def)

text \<open>
  Claim C8, amended: on a connected service, when the submission of
  \<open>incrementCounter\<close>, \<open>decrementCounter\<close> or \<open>resetCounter\<close> rejects, or the
  submission resolves and the wait for the confirmation rejects, the operation rejects
  with that same underlying value, unchanged: the reason is preserved, and the error is
  not rewrapped.
\<close>

theorem mutations_propagate_errors:
  assumes "contract s = Some c"
  shows "(contract_incrementCounter w t c = Rejects e \<longrightarrow>
            fst (incrementCounter w s t) = Rejects e) \<and>
         (contract_incrementCounter w t c = Resolves tx \<and>
          tx_wait w (t @ [ContractIncrementCounter c]) tx = Rejects e \<longrightarrow>
            fst (incrementCounter w s t) = Rejects e) \<and>
         (contract_decrementCounter w t c = Rejects e \<longrightarrow>
            fst (decrementCounter w s t) = Rejects e) \<and>
         (contract_decrementCounter w t c = Resolves tx \<and>
          tx_wait w (t @ [ContractDecrementCounter c]) tx = Rejects e \<longrightarrow>
            fst (decrementCounter w s t) = Rejects e) \<and>
         (contract_resetCounter w t c = Rejects e \<longrightarrow>
            fst (resetCounter w s t) = Rejects e) \<and>
         (contract_resetCounter w t c = Resolves tx \<and>
          tx_wait w (t @ [ContractResetCounter c]) tx = Rejects e \<longrightarrow>
            fst (resetCounter w s t) = Rejects e)"
  using assms
  by (simp add: incrementCounter_def decrementCounter_def resetCounter_def Let_def)

theorem mutations_propagate_errors_witness:
  "contract connected_service =
     Some (Contract (contractAddress constants) (JsonRpcSigner ''0xa11ce'')) \<and>
   contract_resetCounter tx_reverted_world []
     (Contract (contractAddress constants) (JsonRpcSigner ''0xa11ce'')) =
     Resolves (ContractTransactionResponse ''0x03'') \<and>
   tx_wait tx_reverted_world
     ([] @ [ContractResetCounter (Contract (contractAddress constants)
                                   (JsonRpcSigner ''0xa11ce''))])
     (ContractTransactionResponse ''0x03'') =
     Rejects (ErrorObject ''transaction execution reverted'' None) \<and>
   fst (resetCounter tx_reverted_world connected_service []) =
     Rejects (ErrorObject ''transaction execution reverted'' None)"
proof -
  have a: "contract connected_service =
      Some (Contract (contractAddress constants) (JsonRpcSigner ''0xa11ce''))"
    by (simp add: connected_service_def)
  have b: "contract_resetCounter tx_reverted_world []
      (Contract (contractAddress constants) (JsonRpcSigner ''0xa11ce'')) =
      Resolves (ContractTransactionResponse ''0x03'')"
    and c: "tx_wait tx_reverted_world
      ([] @ [ContractResetCounter (Contract (contractAddress constants)
                                    (JsonRpcSigner ''0xa11ce''))])
      (ContractTransactionResponse ''0x03'') =
      Rejects (ErrorObject ''transaction execution reverted'' None)"
    by (simp_all add: tx_reverted_world_def wallet_world_def)
  show ?thesis
    using a b c
      mutations_propagate_errors [OF a, of tx_reverted_world "[]"
        "ErrorObject ''transaction execution reverted'' None"
        "ContractTransactionResponse ''0x03''"]
    by blast
qed

text \<open>
  Claim C9: each mutating operation submits the call and, when the submission resolves
  with a pending transaction, waits for that transaction; its own outcome is then the
  outcome of the wait. It resolves exactly when the service is connected, the submission
  resolves and the wait that follows resolves, so never on the submission alone.
\<close>

theorem mutations_resolve_after_confirmation:
  "(contract s = Some c \<and> contract_incrementCounter w t c = Resolves tx \<longrightarrow>
      incrementCounter w s t =
        (tx_wait w (t @ [ContractIncrementCounter c]) tx,
         t @ [ContractIncrementCounter c, TxWait tx])) \<and>
   (fst (incrementCounter w s t) = Resolves () \<longleftrightarrow>
      (\<exists>c tx. contract s = Some c \<and> contract_incrementCounter w t c = Resolves tx \<and>
              tx_wait w (t @ [ContractIncrementCounter c]) tx = Resolves ())) \<and>
   (contract s = Some c \<and> contract_decrementCounter w t c = Resolves tx \<longrightarrow>
      decrementCounter w s t =
        (tx_wait w (t @ [ContractDecrementCounter c]) tx,
         t @ [ContractDecrementCounter c, TxWait tx])) \<and>
   (fst (decrementCounter w s t) = Resolves () \<longleftrightarrow>
      (\<exists>c tx. contract s = Some c \<and> contract_decrementCounter w t c = Resolves tx \<and>
              tx_wait w (t @ [ContractDecrementCounter c]) tx = Resolves ())) \<and>
   (contract s = Some c \<and> contract_resetCounter w t c = Resolves tx \<longrightarrow>
      resetCounter w s t =
        (tx_wait w (t @ [ContractResetCounter c]) tx,
         t @ [ContractResetCounter c, TxWait tx])) \<and>
   (fst (resetCounter w s t) = Resolves () \<longleftrightarrow>
      (\<exists>c tx. contract s = Some c \<and> contract_resetCounter w t c = Resolves tx \<and>
              tx_wait w (t @ [ContractResetCounter c]) tx = Resolves ()))"
proof (intro conjI)
  show "contract s = Some c \<and> contract_incrementCounter w t c = Resolves tx \<longrightarrow>
      incrementCounter w s t =
        (tx_wait w (t @ [ContractIncrementCounter c]) tx,
         t @ [ContractIncrementCounter c, TxWait tx])"
    by (simp add: incrementCounter_def Let_def split: outcome.splits)
  show "fst (incrementCounter w s t) = Resolves () \<longleftrightarrow>
      (\<exists>c tx. contract s = Some c \<and> contract_incrementCounter w t c = Resolves tx \<and>
              tx_wait w (t @ [ContractIncrementCounter c]) tx = Resolves ())"
    by (simp add: incrementCounter_def Let_def split: option.splits outcome.splits)
  show "contract s = Some c \<and> contract_decrementCounter w t c = Resolves tx \<longrightarrow>
      decrementCounter w s t =
        (tx_wait w (t @ [ContractDecrementCounter c]) tx,
         t @ [ContractDecrementCounter c, TxWait tx])"
    by (simp add: decrementCounter_def Let_def split: outcome.splits)
  show "fst (decrementCounter w s t) = Resolves () \<longleftrightarrow>
      (\<exists>c tx. contract s = Some c \<and> contract_decrementCounter w t c = Resolves tx \<and>
              tx_wait w (t @ [ContractDecrementCounter c]) tx = Resolves ())"
    by (simp add: decrementCounter_def Let_def split: option.splits outcome.splits)
  show "contract s = Some c \<and> contract_resetCounter w t c = Resolves tx \<longrightarrow>
      resetCounter w s t =
        (tx_wait w (t @ [ContractResetCounter c]) tx,
         t @ [ContractResetCounter c, TxWait tx])"
    by (simp add: resetCounter_def Let_def split: outcome.splits)
  show "fst (resetCounter w s t) = Resolves () \<longleftrightarrow>
      (\<exists>c tx. contract s = Some c \<and> contract_resetCounter w t c = Resolves tx \<and>
              tx_wait w (t @ [ContractResetCounter c]) tx = Resolves ())"
    by (simp add: resetCounter_def Let_def split: option.splits outcome.splits)
qed

theorem mutations_resolve_after_confirmation_witness:
  "contract connected_service =
     Some (Contract (contractAddress constants) (JsonRpcSigner ''0xa11ce'')) \<and>
   contract_resetCounter wallet_world []
     (Contract (contractAddress constants) (JsonRpcSigner ''0xa11ce'')) =
     Resolves (ContractTransactionResponse ''0x03'') \<and>
   resetCounter wallet_world connected_service [] =
     (tx_wait wallet_world
        ([] @ [ContractResetCounter (Contract (contractAddress constants)
                                      (JsonRpcSigner ''0xa11ce''))])
        (ContractTransactionResponse ''0x03''),
      [] @ [ContractResetCounter (Contract (contractAddress constants)
                                   (JsonRpcSigner ''0xa11ce'')),
            TxWait (ContractTransactionResponse ''0x03'')]) \<and>
   contract_incrementCounter pending_confirmation_world []
     (Contract (contractAddress constants) (JsonRpcSigner ''0xa11ce'')) =
     Resolves (ContractTransactionResponse ''0x01'') \<and>
   incrementCounter pending_confirmation_world connected_service [] =
     (tx_wait pending_confirmation_world
        ([] @ [ContractIncrementCounter (Contract (contractAddress constants)
                                          (JsonRpcSigner ''0xa11ce''))])
        (ContractTransactionResponse ''0x01''),
      [] @ [ContractIncrementCounter (Contract (contractAddress constants)
                                       (JsonRpcSigner ''0xa11ce'')),
            TxWait (ContractTransactionResponse ''0x01'')]) \<and>
   fst (incrementCounter pending_confirmation_world connected_service []) = Pending"
proof -
  have a: "contract connected_service =
      Some (Contract (contractAddress constants) (JsonRpcSigner ''0xa11ce''))"
    by (simp add: connected_service_def)
  have b: "contract_resetCounter wallet_world []
      (Contract (contractAddress constants) (JsonRpcSigner ''0xa11ce'')) =
      Resolves (ContractTransactionResponse ''0x03'')"
    by (simp add: wallet_world_def)
  have c: "contract_incrementCounter pending_confirmation_world []
      (Contract (contractAddress constants) (JsonRpcSigner ''0xa11ce'')) =
      Resolves (ContractTransactionResponse ''0x01'')"
    by (simp add: pending_confirmation_world_def wallet_world_def)
  have d: "tx_wait pending_confirmation_world
      ([] @ [ContractIncrementCounter (Contract (contractAddress constants)
                                        (JsonRpcSigner ''0xa11ce''))])
      (ContractTransactionResponse ''0x01'') = Pending"
    by (simp add: pending_confirmation_world_def wallet_world_def)
  note r = mutations_resolve_after_confirmation
    [of connected_service "Contract (contractAddress constants) (JsonRpcSigner ''0xa11ce'')"
      wallet_world "[]" "ContractTransactionResponse ''0x03''"]
  note i = mutations_resolve_after_confirmation
    [of connected_service "Contract (contractAddress constants) (JsonRpcSigner ''0xa11ce'')"
      pending_confirmation_world "[]" "ContractTransactionResponse ''0x01''"]
  have e: "resetCounter wallet_world connected_service [] =
     (tx_wait wallet_world
        ([] @ [ContractResetCounter (Contract (contractAddress constants)
                                      (JsonRpcSigner ''0xa11ce''))])
        (ContractTransactionResponse ''0x03''),
      [] @ [ContractResetCounter (Contract (contractAddress constants)
                                   (JsonRpcSigner ''0xa11ce'')),
            TxWait (ContractTransactionResponse ''0x03'')])"
    using a b r by blast
  have f: "incrementCounter pending_confirmation_world connected_service [] =
     (tx_wait pending_confirmation_world
        ([] @ [ContractIncrementCounter (Contract (contractAddress constants)
                                          (JsonRpcSigner ''0xa11ce''))])
        (ContractTransactionResponse ''0x01''),
      [] @ [ContractIncrementCounter (Contract (contractAddress constants)
                                       (JsonRpcSigner ''0xa11ce'')),
            TxWait (ContractTransactionResponse ''0x01'')])"
    using a c i by blast
  have g: "fst (incrementCounter pending_confirmation_world connected_service []) = Pending"
    using f d by simp
  show ?thesis
    using a b c e f g by blast
qed

section \<open>Diagnostics after a failed \<open>connect\<close>\<close>

text \<open>
  Claim C10, as stated: after a \<open>connect\<close> that has failed at the address validation
  or at the bytecode check, \<open>getNetworkInfo\<close>, \<open>getWalletAddress\<close> and
  \<open>getContractDebugInfo\<close> succeed. They do pass their guards, but they succeed only if
  the calls they make resolve. After a failure at the address validation,
  \<open>getContractDebugInfo\<close> passes the same malformed address to the bytecode query
  (line 189); in a world where that query rejects a string that is not an address, the
  method rejects with the error of the query.
\<close>

theorem failed_connect_diagnostics_counterexample:
  "fst (connect malformed_config strict_address_world counterService []) =
     Rejects (new_Error (msg_invalid_address @ contractAddress malformed_config)) \<and>
   \<not> isConnected (fst (snd (connect malformed_config strict_address_world
                               counterService []))) \<and>
   fst (getContractDebugInfo malformed_config strict_address_world
         (fst (snd (connect malformed_config strict_address_world counterService [])))
         (snd (snd (connect malformed_config strict_address_world counterService [])))) =
     Rejects (ErrorObject ''unconfigured name'' None)"
  by (simp add: connect_def getContractDebugInfo_def strict_address_world_def
      wallet_world_def counterService_def malformed_config_def constants_def
      isConnected_def)

text \<open>
  Claim C10, amended: after a \<open>connect\<close> on a service that is not connected has failed
  at the address validation or at the bytecode check (the environment has a wallet, the
  provider constructor returns, and the signer acquisition and the network query
  resolve), \<open>isConnected()\<close> is false, and yet \<open>getNetworkInfo\<close>,
  \<open>getWalletAddress\<close> and \<open>getContractDebugInfo\<close> do not raise their not-connected
  errors: the provider and the signer were assigned before the failing check, so each
  method passes its guard and makes its calls. Each succeeds when the calls it makes
  resolve, and it rejects only with the value one of its calls rejects with.
\<close>

theorem failed_connect_diagnostics:
  assumes "has_window w" and "has_ethereum w"
    and "new_BrowserProvider w = Inr p"
    and "getSigner w t = Resolves sg"
    and "getNetwork w (t @ [ProviderGetSigner]) = Resolves net"
    and "\<not> isAddress w (contractAddress cfg) \<or>
         getCode w (t @ [ProviderGetSigner, ProviderGetNetwork]) (contractAddress cfg) =
           Resolves ''0x''"
    and "\<not> isConnected s"
    and "s' = fst (snd (connect cfg w s t))"
  shows "(fst (connect cfg w s t) =
            Rejects (new_Error (msg_invalid_address @ contractAddress cfg)) \<or>
          fst (connect cfg w s t) =
            Rejects (new_Error (msg_not_deployed @ contractAddress cfg))) \<and>
         \<not> isConnected s' \<and>
         snd (getNetworkInfo w' s' u) = u @ [ProviderGetNetwork] \<and>
         (getNetwork w' u = Resolves n \<longrightarrow>
            fst (getNetworkInfo w' s' u) = Resolves (net_chainId n, net_name n)) \<and>
         (fst (getNetworkInfo w' s' u) = Rejects e \<longrightarrow> getNetwork w' u = Rejects e) \<and>
         getWalletAddress w' s' u = (signer_getAddress w' u sg, u @ [SignerGetAddress sg]) \<and>
         prefix (u @ [ProviderGetNetwork]) (snd (getContractDebugInfo cfg w' s' u)) \<and>
         (getNetwork w' u = Resolves n \<and>
          getCode w' (u @ [ProviderGetNetwork]) (contractAddress cfg) = Resolves code \<longrightarrow>
            fst (getContractDebugInfo cfg w' s' u) =
              Resolves \<lparr>debug_contractAddress = contractAddress cfg,
                        networkInfo = (net_chainId n, net_name n),
                        contractCode = code,
                        isContractDeployed = (code \<noteq> ''0x'')\<rparr>) \<and>
         (fst (getContractDebugInfo cfg w' s' u) = Rejects e \<longrightarrow>
            getNetwork w' u = Rejects e \<or>
            getCode w' (u @ [ProviderGetNetwork]) (contractAddress cfg) = Rejects e)"
proof -
  have c: "connect cfg w s t =
      (if \<not> isAddress w (contractAddress cfg)
       then (Rejects (new_Error (msg_invalid_address @ contractAddress cfg)),
             s\<lparr>provider := Some p, signer := Some sg\<rparr>,
             t @ [ProviderGetSigner, ProviderGetNetwork])
       else (Rejects (new_Error (msg_not_deployed @ contractAddress cfg)),
             s\<lparr>provider := Some p, signer := Some sg\<rparr>,
             t @ [ProviderGetSigner, ProviderGetNetwork,
                  ProviderGetCode (contractAddress cfg)]))"
    using assms(1-6) by (auto simp: connect_def Let_def)
  then have s': "s' = s\<lparr>provider := Some p, signer := Some sg\<rparr>"
    using assms(8) by simp
  have p: "provider s' = Some p" and g: "signer s' = Some sg"
    and k: "contract s' = contract s"
    using s' by simp_all
  have 1: "fst (connect cfg w s t) =
            Rejects (new_Error (msg_invalid_address @ contractAddress cfg)) \<or>
          fst (connect cfg w s t) =
            Rejects (new_Error (msg_not_deployed @ contractAddress cfg))"
    using c by simp
  have 2: "\<not> isConnected s'"
    using k assms(7) by (simp add: isConnected_def)
  have 3: "snd (getNetworkInfo w' s' u) = u @ [ProviderGetNetwork]"
    using p by (simp add: getNetworkInfo_def Let_def split: outcome.splits)
  have 4: "getNetwork w' u = Resolves n \<longrightarrow>
            fst (getNetworkInfo w' s' u) = Resolves (net_chainId n, net_name n)"
    using p by (simp add: getNetworkInfo_def Let_def)
  have 5: "fst (getNetworkInfo w' s' u) = Rejects e \<longrightarrow> getNetwork w' u = Rejects e"
    using p by (simp add: getNetworkInfo_def Let_def split: outcome.splits)
  have 6: "getWalletAddress w' s' u =
      (signer_getAddress w' u sg, u @ [SignerGetAddress sg])"
    using g by (simp add: getWalletAddress_def)
  have 7: "prefix (u @ [ProviderGetNetwork]) (snd (getContractDebugInfo cfg w' s' u))"
    using p by (simp add: getContractDebugInfo_def Let_def split: outcome.splits)
  have 8: "getNetwork w' u = Resolves n \<and>
          getCode w' (u @ [ProviderGetNetwork]) (contractAddress cfg) = Resolves code \<longrightarrow>
            fst (getContractDebugInfo cfg w' s' u) =
              Resolves \<lparr>debug_contractAddress = contractAddress cfg,
                        networkInfo = (net_chainId n, net_name n),
                        contractCode = code,
                        isContractDeployed = (code \<noteq> ''0x'')\<rparr>"
    using p by (simp add: getContractDebugInfo_def Let_def)
  have 9: "fst (getContractDebugInfo cfg w' s' u) = Rejects e \<longrightarrow>
            getNetwork w' u = Rejects e \<or>
            getCode w' (u @ [ProviderGetNetwork]) (contractAddress cfg) = Rejects e"
    using p by (simp add: getContractDebugInfo_def Let_def split: outcome.splits)
  from 1 2 3 4 5 6 7 8 9 show ?thesis
    by blast
qed

theorem failed_connect_diagnostics_witness:
  "has_window empty_code_world \<and> has_ethereum empty_code_world \<and>
   new_BrowserProvider empty_code_world = Inr BrowserProvider \<and>
   getSigner empty_code_world [] = Resolves (JsonRpcSigner ''0xa11ce'') \<and>
   getNetwork empty_code_world ([] @ [ProviderGetSigner]) =
     Resolves \<lparr>net_chainId = 11155111, net_name = ''sepolia''\<rparr> \<and>
   getCode empty_code_world ([] @ [ProviderGetSigner, ProviderGetNetwork])
     (contractAddress constants) = Resolves ''0x'' \<and>
   getCode empty_code_world ([] @ [ProviderGetNetwork])
     (contractAddress constants) = Resolves ''0x'' \<and>
   \<not> isConnected counterService \<and>
   \<not> isConnected (fst (snd (connect constants empty_code_world counterService []))) \<and>
   fst (getNetworkInfo empty_code_world
         (fst (snd (connect constants empty_code_world counterService []))) []) =
     Resolves (11155111, ''sepolia'') \<and>
   getWalletAddress empty_code_world
     (fst (snd (connect constants empty_code_world counterService []))) [] =
     (Resolves ''0xa11ce'', [SignerGetAddress (JsonRpcSigner ''0xa11ce'')]) \<and>
   fst (getContractDebugInfo constants empty_code_world
         (fst (snd (connect constants empty_code_world counterService []))) []) =
     Resolves \<lparr>debug_contractAddress = contractAddress constants,
               networkInfo = (11155111, ''sepolia''),
               contractCode = ''0x'',
               isContractDeployed = False\<rparr> \<and>
   has_window strict_address_world \<and> has_ethereum strict_address_world \<and>
   new_BrowserProvider strict_address_world = Inr BrowserProvider \<and>
   getSigner strict_address_world [] = Resolves (JsonRpcSigner ''0xa11ce'') \<and>
   getNetwork strict_address_world ([] @ [ProviderGetSigner]) =
     Resolves \<lparr>net_chainId = 11155111, net_name = ''sepolia''\<rparr> \<and>
   \<not> isAddress strict_address_world (contractAddress malformed_config) \<and>
   \<not> isConnected (fst (snd (connect malformed_config strict_address_world
                               counterService []))) \<and>
   fst (getNetworkInfo strict_address_world
         (fst (snd (connect malformed_config strict_address_world counterService []))) []) =
     Resolves (11155111, ''sepolia'') \<and>
   getWalletAddress strict_address_world
     (fst (snd (connect malformed_config strict_address_world counterService []))) [] =
     (Resolves ''0xa11ce'', [SignerGetAddress (JsonRpcSigner ''0xa11ce'')]) \<and>
   prefix ([] @ [ProviderGetNetwork])
     (snd (getContractDebugInfo malformed_config strict_address_world
            (fst (snd (connect malformed_config strict_address_world counterService [])))
            []))"
proof -
  have a: "has_window empty_code_world" and b: "has_ethereum empty_code_world"
    and q: "new_BrowserProvider empty_code_world = Inr BrowserProvider"
    and c: "getSigner empty_code_world [] = Resolves (JsonRpcSigner ''0xa11ce'')"
    and d: "getNetwork empty_code_world ([] @ [ProviderGetSigner]) =
              Resolves \<lparr>net_chainId = 11155111, net_name = ''sepolia''\<rparr>"
    and f: "getCode empty_code_world ([] @ [ProviderGetSigner, ProviderGetNetwork])
              (contractAddress constants) = Resolves ''0x''"
    and d': "getNetwork empty_code_world [] =
              Resolves \<lparr>net_chainId = 11155111, net_name = ''sepolia''\<rparr>"
    and f': "getCode empty_code_world ([] @ [ProviderGetNetwork])
              (contractAddress constants) = Resolves ''0x''"
    and g': "signer_getAddress empty_code_world [] (JsonRpcSigner ''0xa11ce'') =
              Resolves ''0xa11ce''"
    by (simp_all add: empty_code_world_def wallet_world_def)
  have f2: "\<not> isAddress empty_code_world (contractAddress constants) \<or>
      getCode empty_code_world ([] @ [ProviderGetSigner, ProviderGetNetwork])
        (contractAddress constants) = Resolves ''0x''"
    using f by simp
  have h: "\<not> isConnected counterService"
    by (simp add: isConnected_def counterService_def)
  note r = failed_connect_diagnostics [OF a b q c d f2 h refl,
      of empty_code_world "[]" "\<lparr>net_chainId = 11155111, net_name = ''sepolia''\<rparr>" _ "''0x''"]
  have first: "\<not> isConnected (fst (snd (connect constants empty_code_world counterService []))) \<and>
   fst (getNetworkInfo empty_code_world
         (fst (snd (connect constants empty_code_world counterService []))) []) =
     Resolves (11155111, ''sepolia'') \<and>
   getWalletAddress empty_code_world
     (fst (snd (connect constants empty_code_world counterService []))) [] =
     (Resolves ''0xa11ce'', [SignerGetAddress (JsonRpcSigner ''0xa11ce'')]) \<and>
   fst (getContractDebugInfo constants empty_code_world
         (fst (snd (connect constants empty_code_world counterService []))) []) =
     Resolves \<lparr>debug_contractAddress = contractAddress constants,
               networkInfo = (11155111, ''sepolia''),
               contractCode = ''0x'',
               isContractDeployed = False\<rparr>"
    using r d' f' g' by simp
  have a2: "has_window strict_address_world" and b2: "has_ethereum strict_address_world"
    and q2: "new_BrowserProvider strict_address_world = Inr BrowserProvider"
    and c2: "getSigner strict_address_world [] = Resolves (JsonRpcSigner ''0xa11ce'')"
    and d2: "getNetwork strict_address_world ([] @ [ProviderGetSigner]) =
              Resolves \<lparr>net_chainId = 11155111, net_name = ''sepolia''\<rparr>"
    and d2': "getNetwork strict_address_world [] =
              Resolves \<lparr>net_chainId = 11155111, net_name = ''sepolia''\<rparr>"
    and g2': "signer_getAddress strict_address_world [] (JsonRpcSigner ''0xa11ce'') =
              Resolves ''0xa11ce''"
    and m: "\<not> isAddress strict_address_world (contractAddress malformed_config)"
    by (simp_all add: strict_address_world_def wallet_world_def malformed_config_def)
  have m2: "\<not> isAddress strict_address_world (contractAddress malformed_config) \<or>
      getCode strict_address_world ([] @ [ProviderGetSigner, ProviderGetNetwork])
        (contractAddress malformed_config) = Resolves ''0x''"
    using m by simp
  note r2 = failed_connect_diagnostics [OF a2 b2 q2 c2 d2 m2 h refl,
      of strict_address_world "[]" "\<lparr>net_chainId = 11155111, net_name = ''sepolia''\<rparr>"]
  have second: "\<not> isConnected (fst (snd (connect malformed_config strict_address_world
                               counterService []))) \<and>
   fst (getNetworkInfo strict_address_world
         (fst (snd (connect malformed_config strict_address_world counterService []))) []) =
     Resolves (11155111, ''sepolia'') \<and>
   getWalletAddress strict_address_world
     (fst (snd (connect malformed_config strict_address_world counterService []))) [] =
     (Resolves ''0xa11ce'', [SignerGetAddress (JsonRpcSigner ''0xa11ce'')]) \<and>
   prefix ([] @ [ProviderGetNetwork])
     (snd (getContractDebugInfo malformed_config strict_address_world
            (fst (snd (connect malformed_config strict_address_world counterService [])))
            []))"
    using r2 d2' g2' by simp
  show ?thesis
    using a b q c d f f' h first a2 b2 q2 c2 d2 m second by blast
qed

end
